theory Spec2Isabelle
  imports Complex_Main "HOL-Library.Word"
begin

section \<open>The audio processor of EarReflectJS: noise gate controller and parameter API\<close>

text \<open>
  The development embeds the class \<open>AudioProcessor\<close> (the noise gate controller, its
  filter chain and its setters) and the level setter of the class \<open>EarReflect\<close>.

  Conventions of the embedding.
  \<^item> A JavaScript \<open>number\<close> is a value of the type \<open>number\<close> below: NaN or a real.
    Arithmetic on reals is exact (the rounding of IEEE doubles is not represented), NaN
    spreads through arithmetic and fails every comparison, as in JavaScript. The
    infinities and the sign of zero are not represented.
  \<^item> A \<open>Uint8Array\<close> is an \<open>8 word list\<close>; \<open>unat\<close> reads an element as the number the
    source adds up.
  \<^item> A nullable node reference is an \<open>option\<close>; \<open>None\<close> is \<open>null\<close>.
  \<^item> A method is a function from the object's state to its new state. A method that can
    throw returns the thrown error (if any) together with the state the object is left in.
  \<^item> The platform's inputs are arguments: \<open>data\<close> is what the analyser node holds when
    \<open>getByteFrequencyData\<close> is called.
  \<^item> \<open>requestAnimationFrame\<close> is a counter of callbacks that were requested and have
    not run yet; \<open>animationFrame\<close> runs one of them.
\<close>

subsection \<open>Numbers\<close>

datatype number = NaN | Num real

text \<open>
  The operators \<open>+\<close>, \<open>-\<close>, \<open>*\<close>, \<open>/\<close>, \<open><\<close>, \<open>>\<close> and \<open>Math.max\<close> of JavaScript.
  \<open>0 / 0\<close> is NaN. A division of a non-zero number by zero is an infinity in
  JavaScript and has no counterpart here; the processor never performs one (see
  \<open>division_by_threshold\<close> and \<open>loop_sum_no_bins\<close> below).
\<close>

fun num_add :: "number \<Rightarrow> number \<Rightarrow> number" where
  "num_add (Num a) (Num b) = Num (a + b)"
| "num_add a b = NaN"

fun num_sub :: "number \<Rightarrow> number \<Rightarrow> number" where
  "num_sub (Num a) (Num b) = Num (a - b)"
| "num_sub a b = NaN"

fun num_mul :: "number \<Rightarrow> number \<Rightarrow> number" where
  "num_mul (Num a) (Num b) = Num (a * b)"
| "num_mul a b = NaN"

fun num_div :: "number \<Rightarrow> number \<Rightarrow> number" where
  "num_div (Num a) (Num b) = (if b = 0 then NaN else Num (a / b))"
| "num_div a b = NaN"

fun num_less :: "number \<Rightarrow> number \<Rightarrow> bool" where
  "num_less (Num a) (Num b) = (a < b)"
| "num_less a b = False"

definition num_greater :: "number \<Rightarrow> number \<Rightarrow> bool" where
  "num_greater a b = num_less b a"

fun num_max :: "number \<Rightarrow> number \<Rightarrow> number" where
  "num_max (Num a) (Num b) = Num (max a b)"
| "num_max a b = NaN"

subsection \<open>Data\<close>

text \<open>The audio nodes an \<open>AudioProcessor\<close> owns, as vertices of the audio graph.\<close>

datatype node = N_input | N_analyser | N_highPass | N_lowPass | N_noiseGate | N_output

text \<open>\<open>AudioProcessorOptions\<close>: every field is optional.\<close>

record AudioProcessorOptions =
  opt_enableNoiseReduction :: "bool option"
  opt_noiseReductionLevel :: "number option"
  opt_lowPassFrequency :: "number option"
  opt_highPassFrequency :: "number option"

text \<open>\<open>Required<AudioProcessorOptions>\<close>, the type of the field \<open>options\<close>.\<close>

record RequiredOptions =
  enableNoiseReduction :: bool
  noiseReductionLevel :: number
  lowPassFrequency :: number
  highPassFrequency :: number

datatype BiquadFilterType = Highpass | Lowpass

record BiquadFilterNode =
  filterType :: BiquadFilterType
  frequency :: number
  Q :: number

record AnalyserNode =
  fftSize :: nat
  smoothingTimeConstant :: number

text \<open>
  The state of an \<open>AudioProcessor\<close>. The field \<open>noiseGate\<close> holds \<open>gain.value\<close> of the
  gain node (the spec's GateGain), \<open>noiseLevel\<close> is the spec's NoiseLevelEstimate.
  \<open>connections\<close> are the edges made by \<open>connect\<close>, \<open>rafQueue\<close> counts the callbacks
  handed to \<open>requestAnimationFrame\<close> that are still to run.
\<close>

record AudioProcessor =
  options :: RequiredOptions
  lowPassFilter :: "BiquadFilterNode option"
  highPassFilter :: "BiquadFilterNode option"
  noiseGate :: "number option"
  analyser :: "AnalyserNode option"
  noiseLevel :: number
  isProcessing :: bool
  connections :: "(node \<times> node) list"
  rafQueue :: nat

text \<open>
  The source throws \<open>new Error(message)\<close> with a message saying that the level must lie
  between 0 and 1; the spec names this error InvalidArgument.
\<close>

datatype error = InvalidArgument

subsection \<open>Platform operations\<close>

text \<open>\<open>a.connect(b)\<close> adds an edge; \<open>a.disconnect()\<close> removes every edge leaving \<open>a\<close>.\<close>

definition connect :: "node \<Rightarrow> node \<Rightarrow> AudioProcessor \<Rightarrow> AudioProcessor" where
  "connect a b s = s\<lparr>connections := connections s @ [(a, b)]\<rparr>"

definition disconnectNode :: "node \<Rightarrow> AudioProcessor \<Rightarrow> AudioProcessor" where
  "disconnectNode a s = s\<lparr>connections := filter (\<lambda>e. fst e \<noteq> a) (connections s)\<rparr>"

text \<open>\<open>frequencyBinCount\<close> is half the FFT size.\<close>

definition frequencyBinCount :: "AnalyserNode \<Rightarrow> nat" where
  "frequencyBinCount a = fftSize a div 2"

text \<open>
  \<open>getByteFrequencyData(array)\<close> copies the analyser's current magnitudes into the array,
  as many as fit; elements of the array beyond the data keep their value.
\<close>

definition getByteFrequencyData :: "8 word list \<Rightarrow> 8 word list \<Rightarrow> 8 word list" where
  "getByteFrequencyData data array = take (length array) data @ drop (length data) array"

subsection \<open>The noise gate controller\<close>

text \<open>
  \<open>processNoiseReduction\<close>, one tick. The loop \<open>for (i = 0; i < bufferLength; i++)
  sum += dataArray[i]\<close> is the \<open>fold\<close> over the indices. With no bins the average is
  \<open>0 / 0\<close>, that is NaN.
\<close>

definition processNoiseReduction :: "8 word list \<Rightarrow> AudioProcessor \<Rightarrow> AudioProcessor" where
  "processNoiseReduction data s =
     (if \<not> isProcessing s then s
      else case analyser s of None \<Rightarrow> s | Some a \<Rightarrow>
        (case noiseGate s of None \<Rightarrow> s | Some currentGain \<Rightarrow>
          (let bufferLength = frequencyBinCount a;
               dataArray = getByteFrequencyData data (replicate bufferLength 0);
               sum' = fold (\<lambda>i acc. num_add acc (Num (real (unat (dataArray ! i)))))
                        [0..<bufferLength] (Num 0);
               average = num_div sum' (Num (real bufferLength));
               normalizedAverage = num_div average (Num 255);
               noiseLevel' = num_add (num_mul (noiseLevel s) (Num 0.9))
                               (num_mul normalizedAverage (Num 0.1));
               threshold = num_add (Num 0.01)
                             (num_mul (noiseReductionLevel (options s)) (Num 0.05));
               gain = (if num_less normalizedAverage threshold
                       then (let reduction = num_div (num_sub threshold normalizedAverage) threshold;
                                 gain = num_sub (Num 1.0)
                                          (num_mul reduction (noiseReductionLevel (options s)))
                             in num_max (Num 0.1) gain)
                       else Num 1.0);
               targetGain = gain;
               smoothedGain = num_add (num_mul currentGain (Num 0.7))
                                (num_mul targetGain (Num 0.3))
           in s\<lparr>noiseLevel := noiseLevel', noiseGate := Some smoothedGain,
                 rafQueue := rafQueue s + 1\<rparr>)))"

text \<open>\<open>startNoiseReduction\<close> runs the first tick itself, before it returns.\<close>

definition startNoiseReduction :: "8 word list \<Rightarrow> AudioProcessor \<Rightarrow> AudioProcessor" where
  "startNoiseReduction data s =
     (if \<not> enableNoiseReduction (options s) \<or> analyser s = None \<or> noiseGate s = None then s
      else processNoiseReduction data (s\<lparr>isProcessing := True\<rparr>))"

text \<open>
  \<open>setupAudioChain\<close>; \<open>currentNode\<close> is the local variable of the source. The analyser
  and the noise gate are created only when noise reduction is enabled at this moment.
\<close>

definition setupAudioChain :: "8 word list \<Rightarrow> AudioProcessor \<Rightarrow> AudioProcessor" where
  "setupAudioChain data s0 =
     (let currentNode = N_input;
          s1 = (if enableNoiseReduction (options s0)
                then connect currentNode N_analyser
                       (s0\<lparr>analyser := Some \<lparr>fftSize = 2048, smoothingTimeConstant = Num 0.8\<rparr>\<rparr>)
                else s0);
          s2 = connect currentNode N_highPass
                 (s1\<lparr>highPassFilter := Some \<lparr>filterType = Highpass,
                        frequency = highPassFrequency (options s1), Q = Num 1\<rparr>\<rparr>);
          currentNode = N_highPass;
          s3 = connect currentNode N_lowPass
                 (s2\<lparr>lowPassFilter := Some \<lparr>filterType = Lowpass,
                        frequency = lowPassFrequency (options s2), Q = Num 1\<rparr>\<rparr>);
          currentNode = N_lowPass;
          (s4, currentNode) =
             (if enableNoiseReduction (options s3)
              then (startNoiseReduction data
                      (connect currentNode N_noiseGate (s3\<lparr>noiseGate := Some (Num 1.0)\<rparr>)),
                    N_noiseGate)
              else (s3, currentNode))
      in connect currentNode N_output s4)"

text \<open>
  The constructor. \<open>requiredOptions\<close> is the object it stores in \<open>this.options\<close>:
  \<open>??\<close> takes the default when the option is missing. No option is range-checked.
\<close>

definition requiredOptions :: "AudioProcessorOptions \<Rightarrow> RequiredOptions" where
  "requiredOptions opts =
     \<lparr>enableNoiseReduction =
        (case opt_enableNoiseReduction opts of None \<Rightarrow> True | Some b \<Rightarrow> b),
      noiseReductionLevel =
        (case opt_noiseReductionLevel opts of None \<Rightarrow> Num 0.5 | Some l \<Rightarrow> l),
      lowPassFrequency =
        (case opt_lowPassFrequency opts of None \<Rightarrow> Num 8000 | Some f \<Rightarrow> f),
      highPassFrequency =
        (case opt_highPassFrequency opts of None \<Rightarrow> Num 80 | Some f \<Rightarrow> f)\<rparr>"

definition AudioProcessor_new :: "AudioProcessorOptions \<Rightarrow> 8 word list \<Rightarrow> AudioProcessor" where
  "AudioProcessor_new opts data =
     setupAudioChain data
       \<lparr>options = requiredOptions opts,
        lowPassFilter = None, highPassFilter = None, noiseGate = None, analyser = None,
        noiseLevel = Num 0, isProcessing = False, connections = [], rafQueue = 0\<rparr>"

text \<open>The options object \<open>{}\<close>, the constructor's default argument.\<close>

definition noOptions :: AudioProcessorOptions where
  "noOptions = \<lparr>opt_enableNoiseReduction = None, opt_noiseReductionLevel = None,
                 opt_lowPassFrequency = None, opt_highPassFrequency = None\<rparr>"

subsection \<open>The parameter API\<close>

definition setNoiseReduction :: "bool \<Rightarrow> 8 word list \<Rightarrow> AudioProcessor \<Rightarrow> AudioProcessor" where
  "setNoiseReduction enabled data s =
     (let s1 = s\<lparr>options := (options s)\<lparr>enableNoiseReduction := enabled\<rparr>\<rparr>
      in if enabled \<and> \<not> isProcessing s1 then startNoiseReduction data s1
         else if \<not> enabled
              then (let s2 = s1\<lparr>isProcessing := False\<rparr>
                    in case noiseGate s2 of None \<Rightarrow> s2 | Some g \<Rightarrow> s2\<lparr>noiseGate := Some (Num 1.0)\<rparr>)
              else s1)"

text \<open>
  The guard is the source's \<open>level < 0 || level > 1\<close>: both comparisons are false for
  NaN.
\<close>

definition setNoiseReductionLevel ::
    "number \<Rightarrow> AudioProcessor \<Rightarrow> error option \<times> AudioProcessor" where
  "setNoiseReductionLevel level s =
     (if num_less level (Num 0) \<or> num_greater level (Num 1) then (Some InvalidArgument, s)
      else (None, s\<lparr>options := (options s)\<lparr>noiseReductionLevel := level\<rparr>\<rparr>))"

definition setLowPassFrequency :: "number \<Rightarrow> AudioProcessor \<Rightarrow> AudioProcessor" where
  "setLowPassFrequency f s =
     (case lowPassFilter s of None \<Rightarrow> s
      | Some n \<Rightarrow> s\<lparr>lowPassFilter := Some (n\<lparr>frequency := f\<rparr>)\<rparr>)"

definition setHighPassFrequency :: "number \<Rightarrow> AudioProcessor \<Rightarrow> AudioProcessor" where
  "setHighPassFrequency f s =
     (case highPassFilter s of None \<Rightarrow> s
      | Some n \<Rightarrow> s\<lparr>highPassFilter := Some (n\<lparr>frequency := f\<rparr>)\<rparr>)"

text \<open>
  \<open>disconnect\<close>. The input and output nodes always exist; the other four are
  disconnected when they are not \<open>null\<close>.
\<close>

definition disconnect :: "AudioProcessor \<Rightarrow> AudioProcessor" where
  "disconnect s =
     (let s1 = s\<lparr>isProcessing := False\<rparr>;
          s2 = disconnectNode N_input s1;
          s3 = (if highPassFilter s2 \<noteq> None then disconnectNode N_highPass s2 else s2);
          s4 = (if lowPassFilter s3 \<noteq> None then disconnectNode N_lowPass s3 else s3);
          s5 = (if noiseGate s4 \<noteq> None then disconnectNode N_noiseGate s4 else s4);
          s6 = (if analyser s5 \<noteq> None then disconnectNode N_analyser s5 else s5)
      in disconnectNode N_output s6)"

text \<open>
  The browser runs one callback that \<open>requestAnimationFrame\<close> was given: the callback
  calls \<open>processNoiseReduction\<close>.
\<close>

definition animationFrame :: "8 word list \<Rightarrow> AudioProcessor \<Rightarrow> AudioProcessor" where
  "animationFrame data s =
     (if rafQueue s = 0 then s
      else processNoiseReduction data (s\<lparr>rafQueue := rafQueue s - 1\<rparr>))"

text \<open>
  What can happen to a constructed processor: a scheduled callback runs, or a caller
  invokes one of the public methods. A thrown error leaves the state the call left.
\<close>

datatype event =
    Frame "8 word list"
  | SetNoiseReduction bool "8 word list"
  | SetNoiseReductionLevel number
  | SetLowPassFrequency number
  | SetHighPassFrequency number
  | Disconnect

fun step :: "event \<Rightarrow> AudioProcessor \<Rightarrow> AudioProcessor" where
  "step (Frame data) s = animationFrame data s"
| "step (SetNoiseReduction enabled data) s = setNoiseReduction enabled data s"
| "step (SetNoiseReductionLevel level) s = snd (setNoiseReductionLevel level s)"
| "step (SetLowPassFrequency f) s = setLowPassFrequency f s"
| "step (SetHighPassFrequency f) s = setHighPassFrequency f s"
| "step Disconnect s = disconnect s"

definition run :: "event list \<Rightarrow> AudioProcessor \<Rightarrow> AudioProcessor" where
  "run evs s = fold step evs s"

subsection \<open>The level setter of \<open>EarReflect\<close>\<close>

text \<open>
  Of the class \<open>EarReflect\<close> the embedding keeps the options, the status and the
  processor it owns; the handles of the platform (audio context, media stream, audio
  element and the nodes of the outer chain) play no part in the setter.
\<close>

record EarReflectOptions =
  er_volume :: number
  er_enableNoiseReduction :: bool
  er_noiseReductionLevel :: number
  er_latency :: number
  er_sampleRate :: number
  er_channels :: number

record EarReflectStatus =
  isRunning :: bool
  isInitialized :: bool
  volume :: number
  noiseReductionEnabled :: bool
  latency :: number

record EarReflect =
  er_options :: EarReflectOptions
  status :: EarReflectStatus
  audioProcessor :: "AudioProcessor option"

definition EarReflect_setNoiseReductionLevel ::
    "number \<Rightarrow> EarReflect \<Rightarrow> error option \<times> EarReflect" where
  "EarReflect_setNoiseReductionLevel level e =
     (if num_less level (Num 0) \<or> num_greater level (Num 1) then (Some InvalidArgument, e)
      else (let e1 = e\<lparr>er_options := (er_options e)\<lparr>er_noiseReductionLevel := level\<rparr>\<rparr>
            in case audioProcessor e1 of
                 None \<Rightarrow> (None, e1)
               | Some p \<Rightarrow>
                   (case setNoiseReductionLevel level p of
                      (err, p') \<Rightarrow> (err, e1\<lparr>audioProcessor := Some p'\<rparr>))))"

subsection \<open>The per-tick algorithm in the words of the specification\<close>

text \<open>
  The EnergySnapshot a tick reads: the array of \<open>frequencyBinCount\<close> zeros after
  \<open>getByteFrequencyData\<close> has filled it.
\<close>

definition snapshot :: "AnalyserNode \<Rightarrow> 8 word list \<Rightarrow> 8 word list" where
  "snapshot a data = getByteFrequencyData data (replicate (frequencyBinCount a) 0)"

text \<open>
  Steps 2, 4 and 5 of the specification's per-tick algorithm, written from its text in
  real arithmetic: the mean of the snapshot divided by the largest magnitude 255, the
  threshold, and the target gain.
\<close>

definition spec_mean :: "real list \<Rightarrow> real" where
  "spec_mean xs = sum_list xs / real (length xs)"

definition spec_normalizedAverage :: "8 word list \<Rightarrow> real" where
  "spec_normalizedAverage snap = spec_mean (map (\<lambda>b. real (unat b)) snap) / 255"

definition spec_threshold :: "real \<Rightarrow> real" where
  "spec_threshold level = 0.01 + level * 0.05"

definition spec_targetGain :: "real \<Rightarrow> real \<Rightarrow> real" where
  "spec_targetGain level normalizedAverage =
     (if normalizedAverage < spec_threshold level
      then max 0.1 (1.0 - ((spec_threshold level - normalizedAverage) / spec_threshold level) * level)
      else 1.0)"

text \<open>
  The same steps evaluated with the operators of JavaScript, so that they are defined on
  NaN as well: a NaN level gives a NaN threshold, every comparison with it fails, and
  the target gain is 1.
\<close>

definition js_mean :: "real list \<Rightarrow> number" where
  "js_mean xs = num_div (Num (sum_list xs)) (Num (real (length xs)))"

definition js_normalizedAverage :: "8 word list \<Rightarrow> number" where
  "js_normalizedAverage snap = num_div (js_mean (map (\<lambda>b. real (unat b)) snap)) (Num 255)"

definition js_threshold :: "number \<Rightarrow> number" where
  "js_threshold level = num_add (Num 0.01) (num_mul level (Num 0.05))"

definition js_targetGain :: "number \<Rightarrow> number \<Rightarrow> number" where
  "js_targetGain level normalizedAverage =
     (if num_less normalizedAverage (js_threshold level)
      then num_max (Num 0.1)
             (num_sub (Num 1.0)
                (num_mul (num_div (num_sub (js_threshold level) normalizedAverage)
                            (js_threshold level)) level))
      else Num 1.0)"

subsection \<open>Predicates and observations used by the theorems\<close>

text \<open>
  The gate gain is a real in \<open>(0, 1]\<close>, where a gate exists; the level is NaN or a real
  that is not negative.
\<close>

definition gateGainInRange :: "AudioProcessor \<Rightarrow> bool" where
  "gateGainInRange s =
     (case noiseGate s of None \<Rightarrow> True | Some NaN \<Rightarrow> False | Some (Num g) \<Rightarrow> 0 < g \<and> g \<le> 1)"

definition levelNotNegative :: "AudioProcessor \<Rightarrow> bool" where
  "levelNotNegative s =
     (case noiseReductionLevel (options s) of NaN \<Rightarrow> True | Num l \<Rightarrow> 0 \<le> l)"

definition stateInvariant :: "AudioProcessor \<Rightarrow> bool" where
  "stateInvariant s = (levelNotNegative s \<and> gateGainInRange s)"

text \<open>The one event that turns noise reduction on again.\<close>

fun reenables :: "event \<Rightarrow> bool" where
  "reenables (SetNoiseReduction enabled data) = enabled"
| "reenables ev = False"

text \<open>The gate gains written by consecutive ticks, one per snapshot.\<close>

fun gainTrace :: "8 word list list \<Rightarrow> AudioProcessor \<Rightarrow> number option list" where
  "gainTrace [] s = []"
| "gainTrace (data # rest) s =
     (let s' = processNoiseReduction data s in noiseGate s' # gainTrace rest s')"

text \<open>Example inputs: silence, a loud signal, and option objects.\<close>

definition silence :: "8 word list" where
  "silence = replicate 1024 0"

definition loud :: "8 word list" where
  "loud = replicate 1024 255"

definition disabledOptions :: AudioProcessorOptions where
  "disabledOptions = noOptions\<lparr>opt_enableNoiseReduction := Some False\<rparr>"

definition negativeLevelOptions :: AudioProcessorOptions where
  "negativeLevelOptions = noOptions\<lparr>opt_noiseReductionLevel := Some (Num (- 0.1))\<rparr>"

text \<open>An \<open>EarReflect\<close> that has been started with its default options.\<close>

definition startedEarReflect :: EarReflect where
  "startedEarReflect =
     \<lparr>er_options = \<lparr>er_volume = Num 0.7, er_enableNoiseReduction = True,
        er_noiseReductionLevel = Num 0.5, er_latency = Num 0, er_sampleRate = Num 44100,
        er_channels = Num 1\<rparr>,
      status = \<lparr>isRunning = True, isInitialized = True, volume = Num 0.7,
        noiseReductionEnabled = True, latency = Num 0\<rparr>,
      audioProcessor = Some (AudioProcessor_new noOptions silence)\<rparr>"

section \<open>Auxiliary facts\<close>

subsection \<open>Reading the snapshot\<close>

lemma length_getByteFrequencyData [simp]:
  "length (getByteFrequencyData data array) = length array"
  by (simp add: getByteFrequencyData_def)

lemma getByteFrequencyData_fits:
  "length data = length array \<Longrightarrow> getByteFrequencyData data array = data"
  by (simp add: getByteFrequencyData_def)

lemma length_snapshot [simp]: "length (snapshot a data) = frequencyBinCount a"
  by (simp add: snapshot_def)

lemma snapshot_fits: "length data = frequencyBinCount a \<Longrightarrow> snapshot a data = data"
  by (simp add: snapshot_def getByteFrequencyData_fits)

lemma snapshot_no_data [simp]: "snapshot a [] = replicate (frequencyBinCount a) 0"
  by (simp add: snapshot_def getByteFrequencyData_def)

lemma bins_2048 [simp]: "frequencyBinCount \<lparr>fftSize = 2048, smoothingTimeConstant = t\<rparr> = 1024"
  by (simp add: frequencyBinCount_def)

text \<open>The summation loop over the indices adds up the elements; it never meets NaN.\<close>

lemma index_loop_sum:
  "fold (\<lambda>i acc. num_add acc (Num (f (xs ! i)))) [0..<length xs] (Num a)
     = Num (a + sum_list (map f xs))"
proof (induction xs arbitrary: a rule: rev_induct)
  case Nil
  show ?case by simp
next
  case (snoc x xs)
  have "fold (\<lambda>i acc. num_add acc (Num (f ((xs @ [x]) ! i)))) [0..<length xs] (Num a)
        = fold (\<lambda>i acc. num_add acc (Num (f (xs ! i)))) [0..<length xs] (Num a)"
    by (rule fold_cong) (simp_all add: nth_append)
  with snoc show ?case by (simp add: nth_append)
qed

text \<open>With no bins the loop leaves the sum at 0, and the average is \<open>0 / 0\<close>.\<close>

lemma loop_sum_no_bins:
  "fold (\<lambda>i acc. num_add acc (Num (f (xs ! i)))) [0..<0] (Num 0) = Num 0"
  by simp

lemma snapshot_nonempty: "0 < frequencyBinCount a \<Longrightarrow> snapshot a data \<noteq> []"
proof
  assume "0 < frequencyBinCount a" and "snapshot a data = []"
  then have "length (snapshot a data) = 0" by simp
  with \<open>0 < frequencyBinCount a\<close> show False by simp
qed

lemma snapshot_all_zero:
  assumes "list_all (\<lambda>b. b = 0) data"
  shows "snapshot a data = replicate (frequencyBinCount a) 0"
proof -
  have "\<forall>b \<in> set (snapshot a data). b = 0"
    using assms
    by (auto simp: snapshot_def getByteFrequencyData_def list_all_iff dest: in_set_takeD in_set_dropD)
  then have "replicate (length (snapshot a data)) 0 = snapshot a data"
    by (rule replicate_length_same)
  then show ?thesis by simp
qed

subsection \<open>Ranges of the quantities of a tick\<close>

lemma byte_range: "0 \<le> real (unat (b::8 word)) \<and> real (unat b) \<le> 255"
proof -
  have "unat b < 256" using unsigned_less [of b, where 'a = nat] by simp
  then have "unat b \<le> 255" by simp
  then have "real (unat b) \<le> real 255" by (rule of_nat_mono)
  then show ?thesis by (simp del: of_nat_unat)
qed

lemma byte_sum_range:
  "0 \<le> sum_list (map (\<lambda>b. real (unat b)) (snap :: 8 word list)) \<and>
   sum_list (map (\<lambda>b. real (unat b)) snap) \<le> 255 * real (length snap)"
proof (induction snap)
  case Nil
  show ?case by simp
next
  case (Cons b bs)
  with byte_range [of b] show ?case by (simp del: of_nat_unat add: algebra_simps)
qed

text \<open>
  The normalised average of a snapshot with at least one bin is the real of the
  specification, and lies in \<open>[0, 1]\<close>.
\<close>

lemma normalizedAverage_real:
  assumes "snap \<noteq> []"
  shows "js_normalizedAverage snap = Num (spec_normalizedAverage snap)"
  using assms
  by (simp add: js_normalizedAverage_def js_mean_def spec_normalizedAverage_def spec_mean_def)

lemma normalizedAverage_range:
  assumes "snap \<noteq> []"
  shows "0 \<le> spec_normalizedAverage snap \<and> spec_normalizedAverage snap \<le> 1"
proof -
  have "0 < real (length snap)" using assms by simp
  with byte_sum_range [of snap] show ?thesis
    by (simp del: of_nat_unat add: spec_normalizedAverage_def spec_mean_def divide_simps)
qed

lemma normalizedAverage_no_bins: "js_normalizedAverage [] = NaN"
  by (simp add: js_normalizedAverage_def js_mean_def)

lemma normalizedAverage_cases:
  "js_normalizedAverage snap = NaN \<or>
   (\<exists>n. js_normalizedAverage snap = Num n \<and> 0 \<le> n \<and> n \<le> 1)"
proof (cases "snap = []")
  case True
  then show ?thesis by (simp add: normalizedAverage_no_bins)
next
  case False
  with normalizedAverage_real [of snap] normalizedAverage_range [of snap] show ?thesis by blast
qed

lemma normalizedAverage_silent: "0 < n \<Longrightarrow> js_normalizedAverage (replicate n 0) = Num 0"
  by (simp add: js_normalizedAverage_def js_mean_def sum_list_replicate)

lemma normalizedAverage_loud: "0 < n \<Longrightarrow> js_normalizedAverage (replicate n 255) = Num 1"
  by (simp add: js_normalizedAverage_def js_mean_def sum_list_replicate)

text \<open>
  For a real level and an average that is not negative the target gain is the real of
  the specification.
\<close>

lemma threshold_real: "js_threshold (Num l) = Num (spec_threshold l)"
  by (simp add: js_threshold_def spec_threshold_def)

lemma targetGain_real:
  assumes "0 \<le> n"
  shows "js_targetGain (Num l) (Num n) = Num (spec_targetGain l n)"
  using assms
  by (auto simp: js_targetGain_def js_threshold_def spec_targetGain_def spec_threshold_def)

text \<open>
  The division by the threshold is reached only below the threshold, and the average is
  never negative: the threshold is positive there.
\<close>

lemma division_by_threshold:
  assumes "num_less (js_normalizedAverage snap) threshold"
  shows "\<exists>t. threshold = Num t \<and> 0 < t"
proof -
  from assms obtain n t where n: "js_normalizedAverage snap = Num n" and t: "threshold = Num t"
    by (cases "js_normalizedAverage snap"; cases threshold) simp_all
  from n normalizedAverage_cases [of snap] have "0 \<le> n" by auto
  with assms n t show ?thesis by simp
qed

lemma targetGain_NaN [simp]:
  "js_targetGain NaN n = Num 1" "js_targetGain level NaN = Num 1"
  by (simp_all add: js_targetGain_def js_threshold_def)

lemma spec_targetGain_range:
  assumes "0 \<le> l" "0 \<le> n"
  shows "0.1 \<le> spec_targetGain l n \<and> spec_targetGain l n \<le> 1"
proof (cases "n < spec_threshold l")
  case False
  then show ?thesis by (simp add: spec_targetGain_def)
next
  case True
  let ?t = "spec_threshold l"
  have t: "0 < ?t" using assms by (simp add: spec_threshold_def add_pos_nonneg)
  have "0 \<le> (?t - n) / ?t" using True t by simp
  then have "0 \<le> (?t - n) / ?t * l" using assms(1) by (rule mult_nonneg_nonneg)
  then show ?thesis using True by (simp add: spec_targetGain_def)
qed

lemma targetGain_range:
  assumes "level = NaN \<or> (\<exists>l. level = Num l \<and> 0 \<le> l)"
    and "navg = NaN \<or> (\<exists>n. navg = Num n \<and> 0 \<le> n)"
  shows "\<exists>t. js_targetGain level navg = Num t \<and> 0.1 \<le> t \<and> t \<le> 1"
proof (cases "\<exists>l n. level = Num l \<and> navg = Num n")
  case False
  with assms have "level = NaN \<or> navg = NaN" by auto
  then have "js_targetGain level navg = Num 1" by auto
  then show ?thesis by simp
next
  case True
  then obtain l n where ln: "level = Num l" "navg = Num n" by blast
  with assms have l: "0 \<le> l" and n: "0 \<le> n" by simp_all
  from n have "js_targetGain level navg = Num (spec_targetGain l n)"
    unfolding ln by (rule targetGain_real)
  with spec_targetGain_range [OF l n] show ?thesis by blast
qed

lemma smoothed_in_range:
  assumes "0 < g" "g \<le> 1" "0.1 \<le> t" "t \<le> 1"
  shows "0 < g * 0.7 + t * 0.3 \<and> g * 0.7 + t * 0.3 \<le> (1::real)"
  using assms by simp

lemma targetGain_half_silent: "js_targetGain (Num (1/2)) (Num 0) = Num (1/2)"
  by (simp add: targetGain_real spec_targetGain_def spec_threshold_def)

subsection \<open>What a call does, case by case\<close>

lemma tick_idle: "\<not> isProcessing s \<Longrightarrow> processNoiseReduction data s = s"
  by (simp add: processNoiseReduction_def)

lemma tick_running:
  assumes "isProcessing s" "analyser s = Some a" "noiseGate s = Some g"
  shows "processNoiseReduction data s =
           s\<lparr>noiseLevel := num_add (num_mul (noiseLevel s) (Num 0.9))
                (num_mul (js_normalizedAverage (snapshot a data)) (Num 0.1)),
             noiseGate := Some (num_add (num_mul g (Num 0.7))
                (num_mul (js_targetGain (noiseReductionLevel (options s))
                            (js_normalizedAverage (snapshot a data))) (Num 0.3))),
             rafQueue := rafQueue s + 1\<rparr>"
proof -
  have "fold (\<lambda>i acc. num_add acc (Num (real (unat (snapshot a data ! i)))))
          [0..<frequencyBinCount a] (Num 0)
        = Num (sum_list (map (\<lambda>b. real (unat b)) (snapshot a data)))"
    using index_loop_sum [of "\<lambda>b. real (unat b)" "snapshot a data" 0] by simp
  then show ?thesis
    using assms
    by (simp add: processNoiseReduction_def Let_def js_normalizedAverage_def js_mean_def
        js_targetGain_def js_threshold_def snapshot_def [symmetric])
qed

lemma tick_without_nodes:
  "analyser s = None \<or> noiseGate s = None \<Longrightarrow> processNoiseReduction data s = s"
  by (auto simp: processNoiseReduction_def split: option.splits)

lemma tick_unchanged:
  "\<not> isProcessing s \<or> analyser s = None \<or> noiseGate s = None \<Longrightarrow>
   processNoiseReduction data s = s"
  using tick_idle [of s data] tick_without_nodes [of s data] by blast

lemma disconnectNode_fields [simp]:
  "noiseGate (disconnectNode n s) = noiseGate s"
  "noiseLevel (disconnectNode n s) = noiseLevel s"
  "options (disconnectNode n s) = options s"
  "analyser (disconnectNode n s) = analyser s"
  "lowPassFilter (disconnectNode n s) = lowPassFilter s"
  "highPassFilter (disconnectNode n s) = highPassFilter s"
  "rafQueue (disconnectNode n s) = rafQueue s"
  "isProcessing (disconnectNode n s) = isProcessing s"
  by (simp_all add: disconnectNode_def)

lemma disconnect_fields [simp]:
  "noiseGate (disconnect s) = noiseGate s"
  "noiseLevel (disconnect s) = noiseLevel s"
  "options (disconnect s) = options s"
  "analyser (disconnect s) = analyser s"
  "lowPassFilter (disconnect s) = lowPassFilter s"
  "highPassFilter (disconnect s) = highPassFilter s"
  "rafQueue (disconnect s) = rafQueue s"
  "isProcessing (disconnect s) = False"
  by (simp_all add: disconnect_def Let_def)

lemma tick_literal:
  "processNoiseReduction data
     \<lparr>options = opts, lowPassFilter = lp, highPassFilter = hp, noiseGate = Some g,
      analyser = Some a, noiseLevel = nl, isProcessing = True, connections = c, rafQueue = q\<rparr>
   = \<lparr>options = opts, lowPassFilter = lp, highPassFilter = hp,
      noiseGate = Some (num_add (num_mul g (Num 0.7))
                   (num_mul (js_targetGain (noiseReductionLevel opts)
                      (js_normalizedAverage (snapshot a data))) (Num 0.3))),
      analyser = Some a,
      noiseLevel = num_add (num_mul nl (Num 0.9))
                     (num_mul (js_normalizedAverage (snapshot a data)) (Num 0.1)),
      isProcessing = True, connections = c, rafQueue = q + 1\<rparr>"
  by (simp add: tick_running [of _ a g])

lemma setNoiseReduction_off:
  "setNoiseReduction False data s =
     s\<lparr>options := (options s)\<lparr>enableNoiseReduction := False\<rparr>, isProcessing := False,
       noiseGate := map_option (\<lambda>g. Num 1) (noiseGate s)\<rparr>"
  by (cases "noiseGate s") (simp_all add: setNoiseReduction_def Let_def)

text \<open>The processor the constructor returns, with and without noise reduction.\<close>

lemma new_enabled:
  assumes "enableNoiseReduction (requiredOptions opts)"
  shows "AudioProcessor_new opts data =
    \<lparr>options = requiredOptions opts,
     lowPassFilter = Some \<lparr>filterType = Lowpass,
        frequency = lowPassFrequency (requiredOptions opts), Q = Num 1\<rparr>,
     highPassFilter = Some \<lparr>filterType = Highpass,
        frequency = highPassFrequency (requiredOptions opts), Q = Num 1\<rparr>,
     noiseGate = Some (num_add (num_mul (Num 1) (Num 0.7))
        (num_mul (js_targetGain (noiseReductionLevel (requiredOptions opts))
           (js_normalizedAverage
              (snapshot \<lparr>fftSize = 2048, smoothingTimeConstant = Num 0.8\<rparr> data))) (Num 0.3))),
     analyser = Some \<lparr>fftSize = 2048, smoothingTimeConstant = Num 0.8\<rparr>,
     noiseLevel = num_add (num_mul (Num 0) (Num 0.9))
        (num_mul (js_normalizedAverage
           (snapshot \<lparr>fftSize = 2048, smoothingTimeConstant = Num 0.8\<rparr> data)) (Num 0.1)),
     isProcessing = True,
     connections = [(N_input, N_analyser), (N_input, N_highPass), (N_highPass, N_lowPass),
        (N_lowPass, N_noiseGate), (N_noiseGate, N_output)],
     rafQueue = 1\<rparr>"
  using assms
  by (simp add: AudioProcessor_new_def setupAudioChain_def connect_def
      startNoiseReduction_def tick_running Let_def)

lemma new_disabled:
  assumes "\<not> enableNoiseReduction (requiredOptions opts)"
  shows "AudioProcessor_new opts data =
    \<lparr>options = requiredOptions opts,
     lowPassFilter = Some \<lparr>filterType = Lowpass,
        frequency = lowPassFrequency (requiredOptions opts), Q = Num 1\<rparr>,
     highPassFilter = Some \<lparr>filterType = Highpass,
        frequency = highPassFrequency (requiredOptions opts), Q = Num 1\<rparr>,
     noiseGate = None, analyser = None, noiseLevel = Num 0, isProcessing = False,
     connections = [(N_input, N_highPass), (N_highPass, N_lowPass), (N_lowPass, N_output)],
     rafQueue = 0\<rparr>"
  using assms
  by (simp add: AudioProcessor_new_def setupAudioChain_def connect_def Let_def)

subsection \<open>Ticks over silence at level one half\<close>

lemma silent_ticks:
  assumes "isProcessing s" and "analyser s = Some a" and "0 < frequencyBinCount a"
    and "noiseGate s = Some (Num 1)"
    and "noiseReductionLevel (options s) = Num (1/2)" and "list_all (\<lambda>b. b = 0) data"
  shows "isProcessing ((processNoiseReduction data ^^ n) s) \<and>
         analyser ((processNoiseReduction data ^^ n) s) = Some a \<and>
         noiseReductionLevel (options ((processNoiseReduction data ^^ n) s)) = Num (1/2) \<and>
         noiseGate ((processNoiseReduction data ^^ n) s) = Some (Num (1/2 + 1/2 * (7/10) ^ n))"
proof (induction n)
  case 0
  with assms show ?case by simp
next
  case (Suc n)
  let ?t = "(processNoiseReduction data ^^ n) s"
  from Suc have t: "isProcessing ?t" "analyser ?t = Some a"
    "noiseGate ?t = Some (Num (1/2 + 1/2 * (7/10) ^ n))"
    and lv: "noiseReductionLevel (options ?t) = Num (1/2)" by simp_all
  have avg: "js_normalizedAverage (snapshot a data) = Num 0"
    unfolding snapshot_all_zero [OF assms(6)] using assms(3) by (rule normalizedAverage_silent)
  have "processNoiseReduction data ?t =
      ?t\<lparr>noiseLevel := num_add (num_mul (noiseLevel ?t) (Num 0.9)) (num_mul (Num 0) (Num 0.1)),
         noiseGate := Some (num_add (num_mul (Num (1/2 + 1/2 * (7/10) ^ n)) (Num 0.7))
                              (num_mul (Num (1/2)) (Num 0.3))),
         rafQueue := rafQueue ?t + 1\<rparr>"
    unfolding tick_running [OF t] lv avg targetGain_half_silent ..
  with t lv show ?case by (simp add: algebra_simps)
qed

subsection \<open>Stopping twice, tearing down twice\<close>

lemma disconnect_connections:
  "connections (disconnect s) =
     filter (\<lambda>e. fst e \<noteq> N_input \<and> (highPassFilter s \<noteq> None \<longrightarrow> fst e \<noteq> N_highPass) \<and>
                (lowPassFilter s \<noteq> None \<longrightarrow> fst e \<noteq> N_lowPass) \<and>
                (noiseGate s \<noteq> None \<longrightarrow> fst e \<noteq> N_noiseGate) \<and>
                (analyser s \<noteq> None \<longrightarrow> fst e \<noteq> N_analyser) \<and> fst e \<noteq> N_output)
       (connections s)"
proof -
  have 1: "connections (disconnectNode n t) = filter (\<lambda>e. fst e \<noteq> n) (connections t)" for n t
    by (simp add: disconnectNode_def)
  have 2: "connections (if c then disconnectNode n t else t)
             = filter (\<lambda>e. c \<longrightarrow> fst e \<noteq> n) (connections t)" for c n t
    by (simp add: disconnectNode_def)
  have 3: "f (if c then disconnectNode n t else t) = f t"
    if "\<And>u. f (disconnectNode n u) = f u" for c n t and f :: "AudioProcessor \<Rightarrow> 'a option"
    using that by simp
  show ?thesis
    unfolding disconnect_def Let_def
    by (simp only: 1 2 3 [of highPassFilter] 3 [of lowPassFilter] 3 [of noiseGate] 3 [of analyser]
        disconnectNode_fields filter_filter AudioProcessor.simps) (simp add: conj_ac)
qed

lemma disconnect_twice: "disconnect (disconnect s) = disconnect s"
proof (rule AudioProcessor.equality)
  have "connections (disconnect (disconnect s))
        = filter (\<lambda>e. fst e \<noteq> N_input \<and> (highPassFilter s \<noteq> None \<longrightarrow> fst e \<noteq> N_highPass) \<and>
                (lowPassFilter s \<noteq> None \<longrightarrow> fst e \<noteq> N_lowPass) \<and>
                (noiseGate s \<noteq> None \<longrightarrow> fst e \<noteq> N_noiseGate) \<and>
                (analyser s \<noteq> None \<longrightarrow> fst e \<noteq> N_analyser) \<and> fst e \<noteq> N_output)
            (connections (disconnect s))"
    using disconnect_connections [of "disconnect s"] by simp
  also have "\<dots> = connections (disconnect s)"
    unfolding disconnect_connections [of s] filter_filter
    by (rule filter_cong) (simp_all only: conj_absorb)
  finally show "connections (disconnect (disconnect s)) = connections (disconnect s)" .
qed simp_all

lemma stop_twice:
  "setNoiseReduction False data2 (setNoiseReduction False data1 s)
     = setNoiseReduction False data1 s"
  by (cases "noiseGate s") (simp_all add: setNoiseReduction_off)

subsection \<open>Ticks of two processors that agree on the controller's state\<close>

lemma tick_fields [simp]:
  "isProcessing (processNoiseReduction data s) = isProcessing s"
  "analyser (processNoiseReduction data s) = analyser s"
  "options (processNoiseReduction data s) = options s"
proof -
  have "isProcessing (processNoiseReduction data s) = isProcessing s \<and>
        analyser (processNoiseReduction data s) = analyser s \<and>
        options (processNoiseReduction data s) = options s"
  proof (cases "isProcessing s \<and> analyser s \<noteq> None \<and> noiseGate s \<noteq> None")
    case True
    then obtain a g where "isProcessing s" "analyser s = Some a" "noiseGate s = Some g"
      by auto
    then show ?thesis by (simp add: tick_running)
  next
    case False
    then have "processNoiseReduction data s = s"
      using tick_idle [of s data] tick_without_nodes [of s data] by auto
    then show ?thesis by simp
  qed
  then show "isProcessing (processNoiseReduction data s) = isProcessing s"
    "analyser (processNoiseReduction data s) = analyser s"
    "options (processNoiseReduction data s) = options s"
    by simp_all
qed

lemma tick_agree:
  assumes "isProcessing s1 = isProcessing s2" and "analyser s1 = analyser s2"
    and "noiseReductionLevel (options s1) = noiseReductionLevel (options s2)"
    and "noiseGate s1 = noiseGate s2"
  shows "noiseGate (processNoiseReduction data s1) = noiseGate (processNoiseReduction data s2)"
proof (cases "isProcessing s1 \<and> analyser s1 \<noteq> None \<and> noiseGate s1 \<noteq> None")
  case True
  then obtain a g where s1: "isProcessing s1" "analyser s1 = Some a" "noiseGate s1 = Some g"
    by auto
  have s2: "isProcessing s2" "analyser s2 = Some a" "noiseGate s2 = Some g"
    using s1 assms(1,2,4) by simp_all
  show ?thesis
    unfolding tick_running [OF s1] tick_running [OF s2] using assms(3) by simp
next
  case False
  then have idle1: "\<not> isProcessing s1 \<or> analyser s1 = None \<or> noiseGate s1 = None"
    by simp
  then have idle2: "\<not> isProcessing s2 \<or> analyser s2 = None \<or> noiseGate s2 = None"
    unfolding assms(1,2,4) .
  show ?thesis
    unfolding tick_unchanged [OF idle1] tick_unchanged [OF idle2] by (rule assms(4))
qed

lemma gainTrace_agree:
  "isProcessing s1 = isProcessing s2 \<Longrightarrow> analyser s1 = analyser s2 \<Longrightarrow>
   noiseReductionLevel (options s1) = noiseReductionLevel (options s2) \<Longrightarrow>
   noiseGate s1 = noiseGate s2 \<Longrightarrow>
   gainTrace snaps s1 = gainTrace snaps s2"
proof (induction snaps arbitrary: s1 s2)
  case Nil
  show ?case by simp
next
  case (Cons data rest)
  let ?t1 = "processNoiseReduction data s1" and ?t2 = "processNoiseReduction data s2"
  have gate: "noiseGate ?t1 = noiseGate ?t2"
    using Cons.prems by (rule tick_agree)
  have "isProcessing ?t1 = isProcessing ?t2" "analyser ?t1 = analyser ?t2"
    "noiseReductionLevel (options ?t1) = noiseReductionLevel (options ?t2)"
    unfolding tick_fields using Cons.prems(1,2,3) by -
  then have "gainTrace rest ?t1 = gainTrace rest ?t2"
    using gate by (rule Cons.IH)
  with gate show ?case by (simp only: gainTrace.simps Let_def)
qed

subsection \<open>What keeps the gate gain in range\<close>

text \<open>
  Where the level is NaN or not negative, every event keeps the gate gain a real in
  \<open>(0, 1]\<close>. The level setter keeps the level so; the constructor does not check it.
\<close>

lemma level_cases:
  "levelNotNegative s \<longleftrightarrow>
     noiseReductionLevel (options s) = NaN \<or>
     (\<exists>l. noiseReductionLevel (options s) = Num l \<and> 0 \<le> l)"
  by (cases "noiseReductionLevel (options s)") (simp_all add: levelNotNegative_def)

lemma gate_cases:
  "noiseGate s = Some G \<Longrightarrow> gateGainInRange s \<longleftrightarrow> (\<exists>g. G = Num g \<and> 0 < g \<and> g \<le> 1)"
  by (cases G) (simp_all add: gateGainInRange_def)

lemma tick_invariant:
  assumes "stateInvariant s"
  shows "stateInvariant (processNoiseReduction data s) \<and>
         (noiseGate (processNoiseReduction data s) = None \<longleftrightarrow> noiseGate s = None)"
proof (cases "isProcessing s \<and> analyser s \<noteq> None \<and> noiseGate s \<noteq> None")
  case False
  then have "processNoiseReduction data s = s"
    using tick_unchanged [of s data] by auto
  with assms show ?thesis by simp
next
  case True
  then obtain a G where run: "isProcessing s" "analyser s = Some a" "noiseGate s = Some G"
    by auto
  from assms have lv: "levelNotNegative s" and "gateGainInRange s"
    by (simp_all add: stateInvariant_def)
  with run(3) obtain g where g: "G = Num g" "0 < g" "g \<le> 1"
    using gate_cases by blast
  let ?navg = "js_normalizedAverage (snapshot a data)"
  have "?navg = NaN \<or> (\<exists>n. ?navg = Num n \<and> 0 \<le> n)"
    using normalizedAverage_cases [of "snapshot a data"] by blast
  with lv obtain t where t: "js_targetGain (noiseReductionLevel (options s)) ?navg = Num t"
    "0.1 \<le> t" "t \<le> 1"
    using targetGain_range [of "noiseReductionLevel (options s)" ?navg] level_cases [of s]
    by blast
  from g t have "0 < g * 0.7 + t * 0.3 \<and> g * 0.7 + t * 0.3 \<le> 1"
    using smoothed_in_range by blast
  with lv run(3) show ?thesis
    unfolding tick_running [OF run] g(1) t(1)
    by (simp add: stateInvariant_def gateGainInRange_def levelNotNegative_def)
qed

lemma invariant_ignores [simp]:
  "stateInvariant (s\<lparr>isProcessing := b\<rparr>) = stateInvariant s"
  "stateInvariant (s\<lparr>rafQueue := n\<rparr>) = stateInvariant s"
  "stateInvariant (s\<lparr>connections := c\<rparr>) = stateInvariant s"
  "stateInvariant (s\<lparr>lowPassFilter := lp\<rparr>) = stateInvariant s"
  "stateInvariant (s\<lparr>highPassFilter := hp\<rparr>) = stateInvariant s"
  "stateInvariant (s\<lparr>options := (options s)\<lparr>enableNoiseReduction := e\<rparr>\<rparr>) = stateInvariant s"
  by (simp_all add: stateInvariant_def gateGainInRange_def levelNotNegative_def)

lemma start_invariant:
  assumes "stateInvariant s"
  shows "stateInvariant (startNoiseReduction data s) \<and>
         (noiseGate (startNoiseReduction data s) = None \<longleftrightarrow> noiseGate s = None)"
  using assms tick_invariant [of "s\<lparr>isProcessing := True\<rparr>" data]
  by (simp add: startNoiseReduction_def)

lemma setNoiseReduction_invariant:
  assumes "stateInvariant s"
  shows "stateInvariant (setNoiseReduction enabled data s) \<and>
         (noiseGate (setNoiseReduction enabled data s) = None \<longleftrightarrow> noiseGate s = None)"
proof (cases enabled)
  case True
  with assms start_invariant [of "s\<lparr>options := (options s)\<lparr>enableNoiseReduction := True\<rparr>\<rparr>" data]
  show ?thesis by (simp add: setNoiseReduction_def Let_def)
next
  case False
  with assms show ?thesis
    by (cases "noiseGate s")
       (simp_all add: setNoiseReduction_off stateInvariant_def gateGainInRange_def
          levelNotNegative_def)
qed

lemma setNoiseReductionLevel_invariant:
  assumes "stateInvariant s"
  shows "stateInvariant (snd (setNoiseReductionLevel level s)) \<and>
         noiseGate (snd (setNoiseReductionLevel level s)) = noiseGate s"
  using assms
  by (cases level)
     (simp_all add: setNoiseReductionLevel_def num_greater_def stateInvariant_def
        gateGainInRange_def levelNotNegative_def)

lemma step_invariant:
  assumes "stateInvariant s"
  shows "stateInvariant (step ev s) \<and> (noiseGate (step ev s) = None \<longleftrightarrow> noiseGate s = None)"
proof (cases ev)
  case (Frame data)
  with assms tick_invariant [of "s\<lparr>rafQueue := rafQueue s - 1\<rparr>" data]
  show ?thesis by (simp add: animationFrame_def)
next
  case (SetNoiseReduction enabled data)
  with assms setNoiseReduction_invariant show ?thesis by simp
next
  case (SetNoiseReductionLevel level)
  with setNoiseReductionLevel_invariant [OF assms, of level] show ?thesis by simp
next
  case (SetLowPassFrequency f)
  with assms show ?thesis by (simp add: setLowPassFrequency_def split: option.splits)
next
  case (SetHighPassFrequency f)
  with assms show ?thesis by (simp add: setHighPassFrequency_def split: option.splits)
next
  case Disconnect
  with assms show ?thesis
    by (simp add: stateInvariant_def gateGainInRange_def levelNotNegative_def)
qed

lemma run_invariant:
  "stateInvariant s \<Longrightarrow>
   stateInvariant (run evs s) \<and> (noiseGate (run evs s) = None \<longleftrightarrow> noiseGate s = None)"
proof (induction evs arbitrary: s)
  case Nil
  then show ?case by (simp add: run_def)
next
  case (Cons ev evs)
  from Cons.prems step_invariant [of s ev]
  have "stateInvariant (step ev s)" and "noiseGate (step ev s) = None \<longleftrightarrow> noiseGate s = None"
    by simp_all
  with Cons.IH [of "step ev s"] show ?case by (simp add: run_def)
qed

lemma new_invariant:
  assumes "case opt_noiseReductionLevel opts of None \<Rightarrow> True | Some NaN \<Rightarrow> True
           | Some (Num l) \<Rightarrow> 0 \<le> l"
  shows "stateInvariant (AudioProcessor_new opts data)"
proof -
  let ?level = "noiseReductionLevel (requiredOptions opts)"
  have lv: "?level = NaN \<or> (\<exists>l. ?level = Num l \<and> 0 \<le> l)"
  proof (cases "opt_noiseReductionLevel opts")
    case None
    then have "?level = Num (1/2) \<and> (0::real) \<le> 1/2" by (simp add: requiredOptions_def)
    then show ?thesis by blast
  next
    case (Some v)
    then have "?level = v" by (simp add: requiredOptions_def)
    with Some assms show ?thesis by (cases v) simp_all
  qed
  show ?thesis
  proof (cases "enableNoiseReduction (requiredOptions opts)")
    case False
    with lv show ?thesis
      by (auto simp: new_disabled stateInvariant_def gateGainInRange_def levelNotNegative_def)
  next
    case True
    let ?a = "\<lparr>fftSize = 2048, smoothingTimeConstant = Num 0.8\<rparr>"
    let ?navg = "js_normalizedAverage (snapshot ?a data)"
    have "?navg = NaN \<or> (\<exists>n. ?navg = Num n \<and> 0 \<le> n)"
      using normalizedAverage_cases [of "snapshot ?a data"] by blast
    with lv obtain t where t: "js_targetGain ?level ?navg = Num t" "0.1 \<le> t" "t \<le> 1"
      using targetGain_range [of ?level ?navg] by blast
    from t(2,3) have "0 < 1 * 0.7 + t * 0.3 \<and> 1 * 0.7 + t * 0.3 \<le> (1::real)" by simp
    with lv show ?thesis
      unfolding new_enabled [OF True] t(1)
      by (auto simp: stateInvariant_def gateGainInRange_def levelNotNegative_def)
  qed
qed

lemma gate_gain_invariant:
  assumes "levelNotNegative s" and "noiseGate s = Some (Num g0)" and "0 < g0" and "g0 \<le> 1"
  shows "\<exists>g. noiseGate (run evs s) = Some (Num g) \<and> 0 < g \<and> g \<le> 1"
proof -
  from assms have "stateInvariant s"
    by (simp add: stateInvariant_def gateGainInRange_def)
  from run_invariant [OF this, of evs] assms(2)
  obtain G where G: "noiseGate (run evs s) = Some G" and "gateGainInRange (run evs s)"
    by (auto simp: stateInvariant_def)
  then show ?thesis using gate_cases by blast
qed

subsection \<open>A stopped controller stays as it is until it is enabled again\<close>

lemma stopped_step:
  assumes "\<not> isProcessing s" and "noiseGate s = Some (Num 1)" and "\<not> reenables ev"
  shows "\<not> isProcessing (step ev s) \<and> noiseGate (step ev s) = Some (Num 1) \<and>
         noiseLevel (step ev s) = noiseLevel s"
proof (cases ev)
  case (Frame data)
  with assms show ?thesis by (simp add: animationFrame_def tick_idle)
next
  case (SetNoiseReduction enabled data)
  with assms have "\<not> enabled" by simp
  with SetNoiseReduction assms show ?thesis by (simp add: setNoiseReduction_off)
next
  case (SetNoiseReductionLevel level)
  with assms show ?thesis by (simp add: setNoiseReductionLevel_def)
next
  case (SetLowPassFrequency f)
  with assms show ?thesis by (simp add: setLowPassFrequency_def split: option.splits)
next
  case (SetHighPassFrequency f)
  with assms show ?thesis by (simp add: setHighPassFrequency_def split: option.splits)
next
  case Disconnect
  with assms show ?thesis by simp
qed

lemma stopped_run:
  "\<not> isProcessing s \<Longrightarrow> noiseGate s = Some (Num 1) \<Longrightarrow>
   list_all (\<lambda>ev. \<not> reenables ev) evs \<Longrightarrow>
   \<not> isProcessing (run evs s) \<and> noiseGate (run evs s) = Some (Num 1) \<and>
   noiseLevel (run evs s) = noiseLevel s"
proof (induction evs arbitrary: s)
  case Nil
  then show ?case by (simp add: run_def)
next
  case (Cons ev evs)
  from Cons.prems have ev: "\<not> reenables ev" and rest: "list_all (\<lambda>ev. \<not> reenables ev) evs"
    by simp_all
  from stopped_step [OF Cons.prems(1,2) ev]
  have st: "\<not> isProcessing (step ev s)" "noiseGate (step ev s) = Some (Num 1)"
    "noiseLevel (step ev s) = noiseLevel s" by simp_all
  from Cons.IH [OF st(1,2) rest] st(3) show ?case by (simp add: run_def)
qed

subsection \<open>The level setter on real levels\<close>

text \<open>For a real level both setters check the range as documented.\<close>

lemma setNoiseReductionLevel_real_level:
  "(0 \<le> l \<and> l \<le> 1 \<longrightarrow>
      setNoiseReductionLevel (Num l) s
        = (None, s\<lparr>options := (options s)\<lparr>noiseReductionLevel := Num l\<rparr>\<rparr>)) \<and>
   (l < 0 \<or> 1 < l \<longrightarrow> setNoiseReductionLevel (Num l) s = (Some InvalidArgument, s))"
  by (auto simp: setNoiseReductionLevel_def num_greater_def)

lemma EarReflect_setNoiseReductionLevel_real_level:
  "(0 \<le> l \<and> l \<le> 1 \<longrightarrow>
      fst (EarReflect_setNoiseReductionLevel (Num l) e) = None \<and>
      er_noiseReductionLevel (er_options (snd (EarReflect_setNoiseReductionLevel (Num l) e)))
        = Num l \<and>
      map_option (\<lambda>p. noiseReductionLevel (options p))
          (audioProcessor (snd (EarReflect_setNoiseReductionLevel (Num l) e)))
        = map_option (\<lambda>p. Num l) (audioProcessor e)) \<and>
   (l < 0 \<or> 1 < l \<longrightarrow>
      EarReflect_setNoiseReductionLevel (Num l) e = (Some InvalidArgument, e))"
  by (auto simp: EarReflect_setNoiseReductionLevel_def setNoiseReductionLevel_def
      num_greater_def Let_def split: option.splits)

subsection \<open>The example inputs, evaluated\<close>

lemma required_noOptions:
  "requiredOptions noOptions = \<lparr>enableNoiseReduction = True, noiseReductionLevel = Num (1/2),
     lowPassFrequency = Num 8000, highPassFrequency = Num 80\<rparr>"
  by (simp add: requiredOptions_def noOptions_def)

lemma targetGain_loud: "l \<le> 1 \<Longrightarrow> js_targetGain (Num l) (Num 1) = Num 1"
  by (simp add: targetGain_real spec_targetGain_def spec_threshold_def)

lemma snapshot_silence [simp]:
  "snapshot \<lparr>fftSize = 2048, smoothingTimeConstant = t\<rparr> silence = silence"
  by (simp add: snapshot_fits silence_def)

lemma snapshot_loud [simp]:
  "snapshot \<lparr>fftSize = 2048, smoothingTimeConstant = t\<rparr> loud = loud"
  by (simp add: snapshot_fits loud_def)

lemma normalizedAverage_examples [simp]:
  "js_normalizedAverage silence = Num 0" "js_normalizedAverage loud = Num 1"
  by (simp_all add: silence_def loud_def normalizedAverage_silent normalizedAverage_loud)

lemma spec_normalizedAverage_examples [simp]:
  "spec_normalizedAverage silence = 0" "spec_normalizedAverage loud = 1"
  by (simp_all add: silence_def loud_def spec_normalizedAverage_def spec_mean_def
      sum_list_replicate)

lemma threshold_half: "js_threshold (Num (1/2)) = Num 0.035"
  by (simp add: js_threshold_def)

lemma new_default_silence:
  "AudioProcessor_new noOptions silence =
    \<lparr>options = \<lparr>enableNoiseReduction = True, noiseReductionLevel = Num (1/2),
        lowPassFrequency = Num 8000, highPassFrequency = Num 80\<rparr>,
     lowPassFilter = Some \<lparr>filterType = Lowpass, frequency = Num 8000, Q = Num 1\<rparr>,
     highPassFilter = Some \<lparr>filterType = Highpass, frequency = Num 80, Q = Num 1\<rparr>,
     noiseGate = Some (Num (17/20)),
     analyser = Some \<lparr>fftSize = 2048, smoothingTimeConstant = Num 0.8\<rparr>,
     noiseLevel = Num 0,
     isProcessing = True,
     connections = [(N_input, N_analyser), (N_input, N_highPass), (N_highPass, N_lowPass),
        (N_lowPass, N_noiseGate), (N_noiseGate, N_output)],
     rafQueue = 1\<rparr>"
  by (simp add: new_enabled required_noOptions targetGain_half_silent)

lemma required_negativeLevel:
  "requiredOptions negativeLevelOptions = \<lparr>enableNoiseReduction = True,
     noiseReductionLevel = Num (- (1/10)), lowPassFrequency = Num 8000,
     highPassFrequency = Num 80\<rparr>"
  by (simp add: requiredOptions_def negativeLevelOptions_def noOptions_def)

lemma targetGain_negative_level:
  "js_targetGain (Num (- (1/10))) (Num 1) = Num 1"
  "js_targetGain (Num (- (1/10))) (Num 0) = Num (11/10)"
  by (simp_all add: targetGain_real spec_targetGain_def spec_threshold_def)

lemma new_negativeLevel_loud:
  "AudioProcessor_new negativeLevelOptions loud =
    \<lparr>options = \<lparr>enableNoiseReduction = True, noiseReductionLevel = Num (- (1/10)),
        lowPassFrequency = Num 8000, highPassFrequency = Num 80\<rparr>,
     lowPassFilter = Some \<lparr>filterType = Lowpass, frequency = Num 8000, Q = Num 1\<rparr>,
     highPassFilter = Some \<lparr>filterType = Highpass, frequency = Num 80, Q = Num 1\<rparr>,
     noiseGate = Some (Num 1),
     analyser = Some \<lparr>fftSize = 2048, smoothingTimeConstant = Num 0.8\<rparr>,
     noiseLevel = Num (1/10),
     isProcessing = True,
     connections = [(N_input, N_analyser), (N_input, N_highPass), (N_highPass, N_lowPass),
        (N_lowPass, N_noiseGate), (N_noiseGate, N_output)],
     rafQueue = 1\<rparr>"
  by (simp add: new_enabled required_negativeLevel targetGain_negative_level)

lemma required_disabled:
  "requiredOptions disabledOptions = \<lparr>enableNoiseReduction = False,
     noiseReductionLevel = Num (1/2), lowPassFrequency = Num 8000, highPassFrequency = Num 80\<rparr>"
  by (simp add: requiredOptions_def disabledOptions_def noOptions_def)

lemma new_disabled_example:
  "AudioProcessor_new disabledOptions data =
    \<lparr>options = \<lparr>enableNoiseReduction = False, noiseReductionLevel = Num (1/2),
        lowPassFrequency = Num 8000, highPassFrequency = Num 80\<rparr>,
     lowPassFilter = Some \<lparr>filterType = Lowpass, frequency = Num 8000, Q = Num 1\<rparr>,
     highPassFilter = Some \<lparr>filterType = Highpass, frequency = Num 80, Q = Num 1\<rparr>,
     noiseGate = None, analyser = None, noiseLevel = Num 0, isProcessing = False,
     connections = [(N_input, N_highPass), (N_highPass, N_lowPass), (N_lowPass, N_output)],
     rafQueue = 0\<rparr>"
  by (simp add: new_disabled required_disabled)

lemma tick_default_silence:
  "run [Frame silence] (AudioProcessor_new noOptions silence) =
     (AudioProcessor_new noOptions silence)\<lparr>noiseGate := Some (Num (149/200))\<rparr>"
  by (simp add: new_default_silence run_def animationFrame_def tick_literal
      targetGain_half_silent)

lemma new_default_loud:
  "AudioProcessor_new noOptions loud =
    \<lparr>options = \<lparr>enableNoiseReduction = True, noiseReductionLevel = Num (1/2),
        lowPassFrequency = Num 8000, highPassFrequency = Num 80\<rparr>,
     lowPassFilter = Some \<lparr>filterType = Lowpass, frequency = Num 8000, Q = Num 1\<rparr>,
     highPassFilter = Some \<lparr>filterType = Highpass, frequency = Num 80, Q = Num 1\<rparr>,
     noiseGate = Some (Num 1),
     analyser = Some \<lparr>fftSize = 2048, smoothingTimeConstant = Num 0.8\<rparr>,
     noiseLevel = Num (1/10),
     isProcessing = True,
     connections = [(N_input, N_analyser), (N_input, N_highPass), (N_highPass, N_lowPass),
        (N_lowPass, N_noiseGate), (N_noiseGate, N_output)],
     rafQueue = 1\<rparr>"
  by (simp add: new_enabled required_noOptions targetGain_loud)

lemma disconnect_new_disabled:
  "disconnect (AudioProcessor_new disabledOptions silence) =
     (AudioProcessor_new disabledOptions silence)\<lparr>connections := []\<rparr>"
proof (rule AudioProcessor.equality)
  show "connections (disconnect (AudioProcessor_new disabledOptions silence)) =
     connections ((AudioProcessor_new disabledOptions silence)\<lparr>connections := []\<rparr>)"
    by (simp add: disconnect_connections new_disabled_example)
qed (simp_all add: new_disabled_example)

lemma new_default_loud_fields:
  "isProcessing (AudioProcessor_new noOptions loud)"
  "analyser (AudioProcessor_new noOptions loud)
     = Some \<lparr>fftSize = 2048, smoothingTimeConstant = Num 0.8\<rparr>"
  "noiseGate (AudioProcessor_new noOptions loud) = Some (Num 1)"
  "noiseReductionLevel (options (AudioProcessor_new noOptions loud)) = Num (1/2)"
  by (simp_all add: new_default_loud)

section \<open>The claims\<close>

subsection \<open>C1: what one tick computes\<close>

text \<open>
  Claim C1. On a running controller, a tick that reads an EnergySnapshot of \<open>N\<close>
  magnitudes (bytes, so each lies in 0..255; \<open>N\<close> is the analyser's bin count and is
  positive) takes the mean of the snapshot, divides it by 255, moves the noise estimate
  to \<open>0.9\<close> times its old value plus \<open>0.1\<close> times that normalised average, takes the
  threshold \<open>0.01 + level * 0.05\<close>, chooses the target gain
  \<open>max 0.1 (1 - ((threshold - normalizedAverage) / threshold) * level)\<close> below the
  threshold and \<open>1\<close> otherwise, and writes \<open>0.7\<close> times the old gate gain plus
  \<open>0.3\<close> times the target gain to the gain stage.

  The first conjunct says so in real arithmetic for a state whose estimate, gain and
  level are reals: the right-hand sides are the definitions written from the
  specification, the left-hand sides run the source's tick. The last two conjuncts say
  the same for every state, NaN included, with the specification's formulas evaluated
  by the operators of JavaScript.
\<close>

theorem tick_computes:
  assumes "isProcessing s" and "analyser s = Some a" and "noiseGate s = Some gateGain"
    and "length snap = frequencyBinCount a" and "snap \<noteq> []"
  shows "(\<forall>estimate gain level.
            noiseLevel s = Num estimate \<and> gateGain = Num gain \<and>
            noiseReductionLevel (options s) = Num level \<longrightarrow>
            noiseLevel (processNoiseReduction snap s)
              = Num (estimate * 0.9 + spec_normalizedAverage snap * 0.1) \<and>
            noiseGate (processNoiseReduction snap s)
              = Some (Num (gain * 0.7 +
                  spec_targetGain level (spec_normalizedAverage snap) * 0.3))) \<and>
         noiseLevel (processNoiseReduction snap s)
           = num_add (num_mul (noiseLevel s) (Num 0.9))
               (num_mul (js_normalizedAverage snap) (Num 0.1)) \<and>
         noiseGate (processNoiseReduction snap s)
           = Some (num_add (num_mul gateGain (Num 0.7))
               (num_mul (js_targetGain (noiseReductionLevel (options s))
                           (js_normalizedAverage snap)) (Num 0.3)))"
proof -
  have tick: "processNoiseReduction snap s =
      s\<lparr>noiseLevel := num_add (num_mul (noiseLevel s) (Num 0.9))
           (num_mul (js_normalizedAverage snap) (Num 0.1)),
        noiseGate := Some (num_add (num_mul gateGain (Num 0.7))
           (num_mul (js_targetGain (noiseReductionLevel (options s))
                       (js_normalizedAverage snap)) (Num 0.3))),
        rafQueue := rafQueue s + 1\<rparr>"
    using tick_running [OF assms(1,2,3), of snap] by (simp add: snapshot_fits assms(4))
  have avg: "js_normalizedAverage snap = Num (spec_normalizedAverage snap)"
    using assms(5) by (rule normalizedAverage_real)
  have "0 \<le> spec_normalizedAverage snap"
    using normalizedAverage_range [OF assms(5)] by simp
  then have target: "js_targetGain (Num level) (Num (spec_normalizedAverage snap))
      = Num (spec_targetGain level (spec_normalizedAverage snap))" for level
    by (rule targetGain_real)
  show ?thesis
    unfolding tick by (simp add: avg target)
qed

text \<open>
  The theorem at the processor built with default options over silence, ticking on a
  loud snapshot: the estimate moves from 0 to 0.1, the gain from 0.85 to 0.895.
\<close>

theorem tick_computes_witness:
  "isProcessing (AudioProcessor_new noOptions silence) \<and>
   analyser (AudioProcessor_new noOptions silence)
     = Some \<lparr>fftSize = 2048, smoothingTimeConstant = Num 0.8\<rparr> \<and>
   noiseGate (AudioProcessor_new noOptions silence) = Some (Num (17/20)) \<and>
   length loud = frequencyBinCount \<lparr>fftSize = 2048, smoothingTimeConstant = Num 0.8\<rparr> \<and>
   loud \<noteq> [] \<and>
   noiseLevel (processNoiseReduction loud (AudioProcessor_new noOptions silence)) = Num (1/10) \<and>
   noiseGate (processNoiseReduction loud (AudioProcessor_new noOptions silence))
     = Some (Num (179/200))"
proof -
  let ?s = "AudioProcessor_new noOptions silence"
  let ?a = "\<lparr>fftSize = 2048, smoothingTimeConstant = Num 0.8\<rparr>"
  have h: "isProcessing ?s" "analyser ?s = Some ?a" "noiseGate ?s = Some (Num (17/20))"
    by (simp_all add: new_default_silence)
  have len: "length loud = frequencyBinCount ?a" and ne: "loud \<noteq> []"
    by (simp_all add: loud_def)
  have lv: "noiseReductionLevel (options ?s) = Num (1/2)" "noiseLevel ?s = Num 0"
    by (simp_all add: new_default_silence)
  from tick_computes [OF h len ne] lv
  have "noiseLevel (processNoiseReduction loud ?s)
          = Num (0 * 0.9 + spec_normalizedAverage loud * 0.1)"
    and "noiseGate (processNoiseReduction loud ?s)
          = Some (Num (17/20 * 0.7 + spec_targetGain (1/2) (spec_normalizedAverage loud) * 0.3))"
    by blast+
  then have "noiseLevel (processNoiseReduction loud ?s) = Num (1/10)"
    and "noiseGate (processNoiseReduction loud ?s) = Some (Num (179/200))"
    by (simp_all add: spec_targetGain_def spec_threshold_def)
  with h len ne show ?thesis by blast
qed

subsection \<open>C2: the gate gain stays in the interval from 0 (excluded) to 1\<close>

text \<open>
  Claim C2 says that the gate gain stays in \<open>(0, 1]\<close> for every initial gain in that
  interval, every sequence of snapshots and every interleaving of the public operations.
  The code breaks it: the constructor stores the level option without the range check
  that the level setter makes, and with a level between \<open>-0.2\<close> and 0 a tick over
  silence from the gate gain \<open>1\<close> has the target gain \<open>1 - level\<close> and writes the gate
  gain \<open>1 - 0.3 * level\<close>, which is above 1. (Where the level is NaN or not negative
  the gain does stay in \<open>(0, 1]\<close> under every event: \<open>gate_gain_invariant\<close>.)
\<close>

theorem negative_level_gain_above_one:
  assumes "isProcessing s" and "analyser s = Some a" and "0 < frequencyBinCount a"
    and "noiseGate s = Some (Num 1)"
    and "noiseReductionLevel (options s) = Num level" and "- 0.2 < level" and "level < 0"
    and "list_all (\<lambda>b. b = 0) data"
  shows "js_targetGain (Num level) (js_normalizedAverage (snapshot a data)) = Num (1 - level) \<and>
         noiseGate (processNoiseReduction data s) = Some (Num (1 - 0.3 * level)) \<and>
         1 < 1 - 0.3 * level"
proof -
  have avg: "js_normalizedAverage (snapshot a data) = Num 0"
    unfolding snapshot_all_zero [OF assms(8)] using assms(3) by (rule normalizedAverage_silent)
  have "0 < spec_threshold level" using assms(6) by (simp add: spec_threshold_def)
  then have "spec_targetGain level 0 = max 0.1 (1 - level)"
    by (simp add: spec_targetGain_def)
  with assms(7) have "spec_targetGain level 0 = 1 - level" by simp
  then have target: "js_targetGain (Num level) (Num 0) = Num (1 - level)"
    by (simp add: targetGain_real)
  have "noiseGate (processNoiseReduction data s)
          = Some (num_add (num_mul (Num 1) (Num 0.7)) (num_mul (Num (1 - level)) (Num 0.3)))"
    unfolding tick_running [OF assms(1,2,4)] assms(5) avg target by simp
  moreover have "1 * 0.7 + (1 - level) * 0.3 = 1 - 0.3 * level"
    by (simp add: field_simps)
  ultimately have "noiseGate (processNoiseReduction data s) = Some (Num (1 - 0.3 * level))"
    by (simp only: num_add.simps num_mul.simps)
  with avg target assms(7) show ?thesis by simp
qed

text \<open>
  The theorem at the level \<open>-0.1\<close>: the setter throws on it, the constructor stores
  it; the processor built over a loud signal has the gate gain \<open>1\<close>, and its next tick
  over silence writes \<open>1.03\<close>.
\<close>

theorem negative_level_gain_above_one_witness:
  "setNoiseReductionLevel (Num (- (1/10))) (AudioProcessor_new noOptions loud)
     = (Some InvalidArgument, AudioProcessor_new noOptions loud) \<and>
   noiseReductionLevel (options (AudioProcessor_new negativeLevelOptions loud))
     = Num (- (1/10)) \<and>
   isProcessing (AudioProcessor_new negativeLevelOptions loud) \<and>
   noiseGate (AudioProcessor_new negativeLevelOptions loud) = Some (Num 1) \<and>
   list_all (\<lambda>b. b = 0) silence \<and>
   noiseGate (processNoiseReduction silence (AudioProcessor_new negativeLevelOptions loud))
     = Some (Num (103/100)) \<and>
   noiseGate (run [Frame silence] (AudioProcessor_new negativeLevelOptions loud))
     = Some (Num (103/100)) \<and>
   gateGainInRange (run [Frame silence] (AudioProcessor_new negativeLevelOptions loud)) = False"
proof -
  let ?s = "AudioProcessor_new negativeLevelOptions loud"
  let ?a = "\<lparr>fftSize = 2048, smoothingTimeConstant = Num 0.8\<rparr>"
  have h: "isProcessing ?s" "analyser ?s = Some ?a" "0 < frequencyBinCount ?a"
    "noiseGate ?s = Some (Num 1)" "noiseReductionLevel (options ?s) = Num (- (1/10))"
    by (simp_all add: new_negativeLevel_loud)
  have quiet: "list_all (\<lambda>b. b = 0) silence" by (simp add: silence_def list_all_iff)
  have setter: "setNoiseReductionLevel (Num (- (1/10))) (AudioProcessor_new noOptions loud)
     = (Some InvalidArgument, AudioProcessor_new noOptions loud)"
    by (simp add: setNoiseReductionLevel_def)
  from negative_level_gain_above_one [OF h _ _ quiet]
  have tick: "noiseGate (processNoiseReduction silence ?s) = Some (Num (103/100))"
    by simp
  have queue: "rafQueue ?s = 1" by (simp add: new_negativeLevel_loud)
  have frame: "run [Frame silence] ?s
                 = processNoiseReduction silence (?s\<lparr>rafQueue := 0\<rparr>)"
    by (simp add: run_def animationFrame_def queue)
  have "noiseGate (processNoiseReduction silence (?s\<lparr>rafQueue := 0\<rparr>))
          = noiseGate (processNoiseReduction silence ?s)"
    by (rule tick_agree) simp_all
  with tick frame have run: "noiseGate (run [Frame silence] ?s) = Some (Num (103/100))"
    by simp
  then have "gateGainInRange (run [Frame silence] ?s) = False"
    by (simp add: gateGainInRange_def)
  with setter h quiet tick run show ?thesis by blast
qed

subsection \<open>C3: the level setter checks its range\<close>

text \<open>
  Claim C3 says that the level setter succeeds for every level in \<open>[0, 1]\<close> and throws,
  leaving the state as it was, for every level outside. The code breaks it at NaN: both
  comparisons of the guard \<open>level < 0 || level > 1\<close> are false for NaN, so the setter of
  \<open>AudioProcessor\<close> stores NaN as the level and throws nothing, and the setter of
  \<open>EarReflect\<close> stores NaN in its options and in the processor it owns. (For a real
  level both setters behave as the claim says: \<open>setNoiseReductionLevel_real_level\<close>,
  \<open>EarReflect_setNoiseReductionLevel_real_level\<close>.)
\<close>

theorem setNoiseReductionLevel_stores_NaN:
  "setNoiseReductionLevel NaN s
     = (None, s\<lparr>options := (options s)\<lparr>noiseReductionLevel := NaN\<rparr>\<rparr>) \<and>
   EarReflect_setNoiseReductionLevel NaN e
     = (None, e\<lparr>er_options := (er_options e)\<lparr>er_noiseReductionLevel := NaN\<rparr>,
                audioProcessor :=
                  map_option (\<lambda>p. p\<lparr>options := (options p)\<lparr>noiseReductionLevel := NaN\<rparr>\<rparr>)
                    (audioProcessor e)\<rparr>)"
  by (cases "audioProcessor e")
     (simp_all add: setNoiseReductionLevel_def EarReflect_setNoiseReductionLevel_def
        num_greater_def Let_def)

text \<open>
  The theorem at the default processor and at a started \<open>EarReflect\<close>: no error, and
  the stored level is NaN, which is neither below 0 nor above 1 nor in between.
\<close>

theorem setNoiseReductionLevel_stores_NaN_witness:
  "fst (setNoiseReductionLevel NaN (AudioProcessor_new noOptions silence)) = None \<and>
   noiseReductionLevel (options (snd (setNoiseReductionLevel NaN
      (AudioProcessor_new noOptions silence)))) = NaN \<and>
   fst (EarReflect_setNoiseReductionLevel NaN startedEarReflect) = None \<and>
   er_noiseReductionLevel (er_options (snd (EarReflect_setNoiseReductionLevel NaN
      startedEarReflect))) = NaN \<and>
   map_option (\<lambda>p. noiseReductionLevel (options p))
      (audioProcessor (snd (EarReflect_setNoiseReductionLevel NaN startedEarReflect)))
     = Some NaN"
  using setNoiseReductionLevel_stores_NaN [of "AudioProcessor_new noOptions silence"
      startedEarReflect]
  by (simp add: startedEarReflect_def)

subsection \<open>C4: enabling starts the controller only when its nodes exist\<close>

text \<open>
  Claim C4 says that enabling noise reduction starts the tick loop on every controller
  that is not running, also on one constructed with noise reduction disabled. For that
  one it fails: the constructor creates neither analyser nor noise gate, and
  \<open>startNoiseReduction\<close> returns at its guard, so the processor is still not running
  and no callback is requested.
\<close>

theorem enable_without_nodes_counterexample:
  "\<not> isProcessing (AudioProcessor_new disabledOptions silence) \<and>
   \<not> isProcessing (setNoiseReduction True silence (AudioProcessor_new disabledOptions silence)) \<and>
   rafQueue (setNoiseReduction True silence (AudioProcessor_new disabledOptions silence)) = 0"
  by (simp add: new_disabled_example setNoiseReduction_def startNoiseReduction_def)

text \<open>
  Claim C4, amended. On a controller that is not running and has its analyser and its
  noise gate (one constructed with noise reduction enabled and stopped since), enabling
  starts the tick loop: the processor is running, the flag is recorded and the next
  callback is requested. On a controller without these nodes (one constructed with noise
  reduction disabled) enabling records the flag and nothing else. On a running controller
  enabling restarts nothing: only the flag is recorded.
\<close>

theorem enable_starts_when_nodes_exist:
  "(\<not> isProcessing s \<and> analyser s \<noteq> None \<and> noiseGate s \<noteq> None \<longrightarrow>
      isProcessing (setNoiseReduction True data s) \<and>
      enableNoiseReduction (options (setNoiseReduction True data s)) \<and>
      rafQueue (setNoiseReduction True data s) = rafQueue s + 1) \<and>
   (\<not> isProcessing s \<and> (analyser s = None \<or> noiseGate s = None) \<longrightarrow>
      setNoiseReduction True data s = s\<lparr>options := (options s)\<lparr>enableNoiseReduction := True\<rparr>\<rparr>) \<and>
   (isProcessing s \<longrightarrow>
      setNoiseReduction True data s = s\<lparr>options := (options s)\<lparr>enableNoiseReduction := True\<rparr>\<rparr>)"
proof -
  let ?s1 = "s\<lparr>options := (options s)\<lparr>enableNoiseReduction := True\<rparr>\<rparr>"
  have started: "isProcessing (setNoiseReduction True data s) \<and>
      enableNoiseReduction (options (setNoiseReduction True data s)) \<and>
      rafQueue (setNoiseReduction True data s) = rafQueue s + 1"
    if "\<not> isProcessing s" "analyser s \<noteq> None" "noiseGate s \<noteq> None"
  proof -
    from that obtain a g where "analyser s = Some a" "noiseGate s = Some g" by auto
    with that(1) show ?thesis
      by (simp add: setNoiseReduction_def startNoiseReduction_def tick_running)
  qed
  have idle: "setNoiseReduction True data s = ?s1"
    if "\<not> isProcessing s" "analyser s = None \<or> noiseGate s = None"
    using that by (auto simp: setNoiseReduction_def startNoiseReduction_def)
  have running: "setNoiseReduction True data s = ?s1" if "isProcessing s"
    using that by (simp add: setNoiseReduction_def)
  from started idle running show ?thesis by blast
qed

text \<open>
  The theorem at a processor stopped by \<open>disconnect\<close>, at one constructed with noise
  reduction disabled, and at a running one.
\<close>

theorem enable_starts_when_nodes_exist_witness:
  "\<not> isProcessing (disconnect (AudioProcessor_new noOptions silence)) \<and>
   isProcessing (setNoiseReduction True loud (disconnect (AudioProcessor_new noOptions silence))) \<and>
   rafQueue (setNoiseReduction True loud (disconnect (AudioProcessor_new noOptions silence))) = 2 \<and>
   setNoiseReduction True loud (AudioProcessor_new disabledOptions silence)
     = (AudioProcessor_new disabledOptions silence)
         \<lparr>options := (options (AudioProcessor_new disabledOptions silence))
            \<lparr>enableNoiseReduction := True\<rparr>\<rparr> \<and>
   isProcessing (AudioProcessor_new noOptions silence) \<and>
   setNoiseReduction True loud (AudioProcessor_new noOptions silence)
     = AudioProcessor_new noOptions silence"
  using enable_starts_when_nodes_exist [of "disconnect (AudioProcessor_new noOptions silence)" loud]
    enable_starts_when_nodes_exist [of "AudioProcessor_new disabledOptions silence" loud]
    enable_starts_when_nodes_exist [of "AudioProcessor_new noOptions silence" loud]
  by (simp add: new_default_silence new_disabled_example)

subsection \<open>C5: disabling opens the gate and halts the ticks\<close>

text \<open>
  Claim C5. On a running controller, whatever its gain, disabling noise reduction sets
  the gate gain to \<open>1\<close> at once; and after any sequence of later events that does not
  enable noise reduction again (callbacks that were still scheduled, calls of the other
  methods) the controller is still stopped, the gate gain is still \<open>1\<close> and the noise
  estimate is the one it had when it was disabled.
\<close>

theorem disable_opens_gate_and_halts:
  assumes "isProcessing s" and "noiseGate s = Some g"
    and "list_all (\<lambda>ev. \<not> reenables ev) evs"
  shows "noiseGate (setNoiseReduction False data s) = Some (Num 1) \<and>
         noiseLevel (setNoiseReduction False data s) = noiseLevel s \<and>
         \<not> isProcessing (run evs (setNoiseReduction False data s)) \<and>
         noiseGate (run evs (setNoiseReduction False data s)) = Some (Num 1) \<and>
         noiseLevel (run evs (setNoiseReduction False data s)) = noiseLevel s"
proof -
  let ?s = "setNoiseReduction False data s"
  have off: "\<not> isProcessing ?s" "noiseGate ?s = Some (Num 1)" "noiseLevel ?s = noiseLevel s"
    using assms(2) by (simp_all add: setNoiseReduction_off)
  from stopped_run [OF off(1,2) assms(3)] off show ?thesis by simp
qed

text \<open>
  The theorem at a processor in mid-attenuation (gain 0.745 after a tick over silence),
  followed by scheduled callbacks and other calls.
\<close>

theorem disable_opens_gate_and_halts_witness:
  "isProcessing (run [Frame silence] (AudioProcessor_new noOptions silence)) \<and>
   noiseGate (run [Frame silence] (AudioProcessor_new noOptions silence)) = Some (Num (149/200)) \<and>
   list_all (\<lambda>ev. \<not> reenables ev)
     [Frame loud, SetNoiseReductionLevel (Num 1), Frame silence, SetNoiseReduction False loud,
      Frame loud, Disconnect, Frame silence] \<and>
   noiseGate (setNoiseReduction False loud
      (run [Frame silence] (AudioProcessor_new noOptions silence))) = Some (Num 1) \<and>
   noiseGate (run [Frame loud, SetNoiseReductionLevel (Num 1), Frame silence,
        SetNoiseReduction False loud, Frame loud, Disconnect, Frame silence]
      (setNoiseReduction False loud
        (run [Frame silence] (AudioProcessor_new noOptions silence)))) = Some (Num 1) \<and>
   noiseLevel (run [Frame loud, SetNoiseReductionLevel (Num 1), Frame silence,
        SetNoiseReduction False loud, Frame loud, Disconnect, Frame silence]
      (setNoiseReduction False loud
        (run [Frame silence] (AudioProcessor_new noOptions silence)))) = Num 0"
proof -
  let ?s = "run [Frame silence] (AudioProcessor_new noOptions silence)"
  let ?evs = "[Frame loud, SetNoiseReductionLevel (Num 1), Frame silence,
        SetNoiseReduction False loud, Frame loud, Disconnect, Frame silence]"
  have running: "isProcessing ?s"
    by (subst tick_default_silence) (simp add: new_default_silence)
  have gate: "noiseGate ?s = Some (Num (149/200))"
    by (subst tick_default_silence) simp
  have level: "noiseLevel ?s = Num 0"
    by (subst tick_default_silence) (simp add: new_default_silence)
  have quiet: "list_all (\<lambda>ev. \<not> reenables ev) ?evs"
    by simp
  from disable_opens_gate_and_halts [OF running gate quiet, of loud] running gate quiet level
  show ?thesis by simp
qed

subsection \<open>C6: silence at level one half\<close>

text \<open>
  Claim C6. With the noise reduction level \<open>0.5\<close> and every bin of every snapshot equal
  to 0, starting from the gate gain \<open>1\<close>: the threshold is \<open>0.035\<close>; the normalised
  average is 0, below the threshold, at every tick; the target gain is \<open>0.5\<close> at every
  tick; the gate gain after \<open>n\<close> ticks is \<open>0.5 + 0.5 * 0.7 ^ n\<close>, so each tick writes
  a smaller gain than the one it found, every gain stays above \<open>0.5\<close> (hence never
  below \<open>0.1\<close>), and the gains come as close to \<open>0.5\<close> as one likes. The first four
  conjuncts are the specification's formulas in real arithmetic, the next three say that
  the operators of JavaScript compute these reals here, the last three are about the
  source's tick.
\<close>

theorem silence_gain_sequence:
  assumes "isProcessing s" and "analyser s = Some a" and "0 < frequencyBinCount a"
    and "noiseGate s = Some (Num 1)" and "noiseReductionLevel (options s) = Num (1/2)"
    and "list_all (\<lambda>b. b = 0) data"
  shows "spec_threshold (1/2) = 0.035 \<and>
         spec_normalizedAverage (snapshot a data) = 0 \<and>
         spec_normalizedAverage (snapshot a data) < spec_threshold (1/2) \<and>
         spec_targetGain (1/2) (spec_normalizedAverage (snapshot a data)) = 0.5 \<and>
         js_threshold (noiseReductionLevel (options s)) = Num (spec_threshold (1/2)) \<and>
         js_normalizedAverage (snapshot a data)
           = Num (spec_normalizedAverage (snapshot a data)) \<and>
         js_targetGain (noiseReductionLevel (options s)) (js_normalizedAverage (snapshot a data))
           = Num (spec_targetGain (1/2) (spec_normalizedAverage (snapshot a data))) \<and>
         (\<forall>n. noiseGate ((processNoiseReduction data ^^ n) s)
                = Some (Num (1/2 + 1/2 * (7/10) ^ n))) \<and>
         (\<forall>n. \<exists>g g'. noiseGate ((processNoiseReduction data ^^ n) s) = Some (Num g) \<and>
                  noiseGate ((processNoiseReduction data ^^ Suc n) s) = Some (Num g') \<and>
                  g' < g \<and> 0.5 < g' \<and> 0.1 \<le> g') \<and>
         (\<forall>e>0. \<exists>N. \<forall>n\<ge>N. \<exists>g.
                  noiseGate ((processNoiseReduction data ^^ n) s) = Some (Num g) \<and>
                  \<bar>g - 0.5\<bar> < e)"
proof -
  have gain: "noiseGate ((processNoiseReduction data ^^ n) s) = Some (Num (1/2 + 1/2 * (7/10) ^ n))"
    for n using silent_ticks [OF assms, of n] by simp
  have snap: "snapshot a data = replicate (frequencyBinCount a) 0"
    using assms(6) by (rule snapshot_all_zero)
  have avg: "spec_normalizedAverage (snapshot a data) = 0"
    by (simp add: snap spec_normalizedAverage_def spec_mean_def sum_list_replicate)
  have thr: "spec_threshold (1/2) = 0.035"
    by (simp add: spec_threshold_def)
  have tgt: "spec_targetGain (1/2) 0 = 0.5"
    by (simp add: spec_targetGain_def spec_threshold_def)
  have jthr: "js_threshold (noiseReductionLevel (options s)) = Num (spec_threshold (1/2))"
    by (simp add: assms(5) threshold_real)
  have javg: "js_normalizedAverage (snapshot a data) = Num 0"
    unfolding snap using assms(3) by (rule normalizedAverage_silent)
  have jtgt: "js_targetGain (noiseReductionLevel (options s)) (Num 0)
                = Num (spec_targetGain (1/2) 0)"
    by (simp add: assms(5) targetGain_real)
  have mono: "\<exists>g g'. noiseGate ((processNoiseReduction data ^^ n) s) = Some (Num g) \<and>
                  noiseGate ((processNoiseReduction data ^^ Suc n) s) = Some (Num g') \<and>
                  g' < g \<and> 0.5 < g' \<and> 0.1 \<le> g'" for n
  proof -
    have "(0::real) < (7/10) ^ n" by simp
    then have "1/2 + 1/2 * (7/10) ^ Suc n < 1/2 + 1/2 * (7/10::real) ^ n"
      and "(0.5::real) < 1/2 + 1/2 * (7/10) ^ Suc n"
      and "(0.1::real) \<le> 1/2 + 1/2 * (7/10) ^ Suc n"
      by simp_all
    with gain [of n] gain [of "Suc n"] show ?thesis by blast
  qed
  have conv: "\<exists>N. \<forall>n\<ge>N. \<exists>g. noiseGate ((processNoiseReduction data ^^ n) s) = Some (Num g) \<and>
                  \<bar>g - 0.5\<bar> < e" if "0 < e" for e :: real
  proof -
    have "(\<lambda>n. (7/10::real) ^ n) \<longlonglongrightarrow> 0"
      by (rule LIMSEQ_realpow_zero) simp_all
    then have "\<forall>r>0. \<exists>no. \<forall>n\<ge>no. norm ((7/10::real) ^ n - 0) < r"
      by (simp only: LIMSEQ_iff)
    with \<open>0 < e\<close> have "\<exists>no. \<forall>n\<ge>no. norm ((7/10::real) ^ n - 0) < e" by blast
    then obtain N where N: "\<And>n. n \<ge> N \<Longrightarrow> norm ((7/10::real) ^ n - 0) < e"
      by blast
    have "\<exists>g. noiseGate ((processNoiseReduction data ^^ n) s) = Some (Num g) \<and> \<bar>g - 0.5\<bar> < e"
      if "n \<ge> N" for n
    proof -
      from N [OF that] have "(7/10::real) ^ n < e" by simp
      with \<open>0 < e\<close> have "\<bar>(1/2 + 1/2 * (7/10) ^ n) - (0.5::real)\<bar> < e" by simp
      with gain [of n] show ?thesis by blast
    qed
    then show ?thesis by blast
  qed
  from thr avg tgt jthr javg jtgt gain mono conv show ?thesis by simp
qed

text \<open>
  The theorem at the default processor built over a loud signal (gain 1, level 0.5),
  ticking over silence: 0.745 after two ticks, and the fiftieth gain of the scenario.
\<close>

theorem silence_gain_sequence_witness:
  "isProcessing (AudioProcessor_new noOptions loud) \<and>
   analyser (AudioProcessor_new noOptions loud)
     = Some \<lparr>fftSize = 2048, smoothingTimeConstant = Num 0.8\<rparr> \<and>
   0 < frequencyBinCount \<lparr>fftSize = 2048, smoothingTimeConstant = Num 0.8\<rparr> \<and>
   noiseGate (AudioProcessor_new noOptions loud) = Some (Num 1) \<and>
   noiseReductionLevel (options (AudioProcessor_new noOptions loud)) = Num (1/2) \<and>
   list_all (\<lambda>b. b = 0) silence \<and>
   js_threshold (noiseReductionLevel (options (AudioProcessor_new noOptions loud))) = Num 0.035 \<and>
   noiseGate ((processNoiseReduction silence ^^ 2) (AudioProcessor_new noOptions loud))
     = Some (Num (149/200)) \<and>
   noiseGate ((processNoiseReduction silence ^^ 50) (AudioProcessor_new noOptions loud))
     = Some (Num (1/2 + 1/2 * (7/10) ^ 50))"
proof -
  let ?s = "AudioProcessor_new noOptions loud"
  let ?a = "\<lparr>fftSize = 2048, smoothingTimeConstant = Num 0.8\<rparr>"
  have bins: "0 < frequencyBinCount ?a" by simp
  have quiet: "list_all (\<lambda>b. b = 0) silence" by (simp add: silence_def list_all_iff)
  note all = silence_gain_sequence [OF new_default_loud_fields(1,2) bins
      new_default_loud_fields(3,4) quiet]
  from all have "spec_threshold (1/2) = 0.035"
    and "js_threshold (noiseReductionLevel (options ?s)) = Num (spec_threshold (1/2))"
    by blast+
  then have "js_threshold (noiseReductionLevel (options ?s)) = Num 0.035" by simp
  moreover from all
  have "noiseGate ((processNoiseReduction silence ^^ 2) ?s) = Some (Num (1/2 + 1/2 * (7/10) ^ 2))"
    by blast
  then have "noiseGate ((processNoiseReduction silence ^^ 2) ?s) = Some (Num (149/200))"
    by (simp add: power2_eq_square)
  moreover from all
  have "noiseGate ((processNoiseReduction silence ^^ 50) ?s)
          = Some (Num (1/2 + 1/2 * (7/10) ^ 50))"
    by blast
  ultimately show ?thesis
    using new_default_loud_fields bins quiet by blast
qed

subsection \<open>C7: stopping and tearing down are idempotent\<close>

text \<open>
  Claim C7. Stopping the controller (\<open>setNoiseReduction(false)\<close>) twice in a row leaves
  the state that stopping once leaves: the tick loop is halted and the gate gain, where
  a gate exists, is \<open>1\<close>. Tearing down with \<open>disconnect\<close> twice leaves the state that
  one \<open>disconnect\<close> leaves, with the loop halted; \<open>disconnect\<close> is defined on every
  state, also on a processor that never started.
\<close>

theorem stop_and_disconnect_idempotent:
  "setNoiseReduction False data2 (setNoiseReduction False data1 s)
     = setNoiseReduction False data1 s \<and>
   \<not> isProcessing (setNoiseReduction False data1 s) \<and>
   (noiseGate s \<noteq> None \<longrightarrow> noiseGate (setNoiseReduction False data1 s) = Some (Num 1)) \<and>
   disconnect (disconnect s) = disconnect s \<and>
   \<not> isProcessing (disconnect s)"
proof -
  have "\<not> isProcessing (setNoiseReduction False data1 s)"
    by (simp add: setNoiseReduction_off)
  moreover have "noiseGate s \<noteq> None \<longrightarrow> noiseGate (setNoiseReduction False data1 s) = Some (Num 1)"
    by (auto simp: setNoiseReduction_off)
  ultimately show ?thesis
    using stop_twice [of data2 data1 s] disconnect_twice [of s] by simp
qed

text \<open>
  The theorem at a processor in mid-attenuation and at a processor constructed with noise
  reduction disabled, which never started: there \<open>disconnect\<close> removes the connections
  and changes nothing else.
\<close>

theorem stop_and_disconnect_idempotent_witness:
  "setNoiseReduction False loud (setNoiseReduction False silence
       (run [Frame silence] (AudioProcessor_new noOptions silence)))
     = setNoiseReduction False silence (run [Frame silence] (AudioProcessor_new noOptions silence)) \<and>
   noiseGate (run [Frame silence] (AudioProcessor_new noOptions silence)) \<noteq> None \<and>
   noiseGate (setNoiseReduction False silence
       (run [Frame silence] (AudioProcessor_new noOptions silence))) = Some (Num 1) \<and>
   disconnect (disconnect (AudioProcessor_new disabledOptions silence))
     = disconnect (AudioProcessor_new disabledOptions silence) \<and>
   disconnect (AudioProcessor_new disabledOptions silence)
     = (AudioProcessor_new disabledOptions silence)\<lparr>connections := []\<rparr>"
proof -
  let ?s = "run [Frame silence] (AudioProcessor_new noOptions silence)"
  have gate: "noiseGate ?s \<noteq> None"
    by (subst tick_default_silence) simp
  from stop_and_disconnect_idempotent [of loud silence ?s] gate
    stop_and_disconnect_idempotent [of loud silence "AudioProcessor_new disabledOptions silence"]
    disconnect_new_disabled
  show ?thesis by simp
qed

subsection \<open>C8: the tick loop is deterministic\<close>

text \<open>
  Claim C8. Two running processors with the same analyser, the same noise reduction
  level, the same noise estimate and the same gate gain, fed the same sequence of
  snapshots, write the same sequence of gate gains, whatever else differs in their
  states. A tick reads nothing but its state and its snapshot; equal gains are equal
  values of the type \<open>number\<close> (bit patterns of doubles are not represented).
\<close>

theorem tick_loop_deterministic:
  assumes "isProcessing s1" and "isProcessing s2"
    and "analyser s1 = analyser s2"
    and "noiseReductionLevel (options s1) = noiseReductionLevel (options s2)"
    and "noiseLevel s1 = noiseLevel s2"
    and "noiseGate s1 = noiseGate s2"
  shows "gainTrace snaps s1 = gainTrace snaps s2"
proof -
  from assms(1,2) have "isProcessing s1 = isProcessing s2" by simp
  then show ?thesis using assms(3,4,6) by (rule gainTrace_agree)
qed

text \<open>
  The theorem at the default processor and at the same processor after its low-pass
  frequency was changed: different states, the same gains.
\<close>

theorem tick_loop_deterministic_witness:
  "isProcessing (AudioProcessor_new noOptions silence) \<and>
   isProcessing (setLowPassFrequency (Num 4000) (AudioProcessor_new noOptions silence)) \<and>
   setLowPassFrequency (Num 4000) (AudioProcessor_new noOptions silence)
     \<noteq> AudioProcessor_new noOptions silence \<and>
   gainTrace [loud, silence, silence] (AudioProcessor_new noOptions silence)
     = gainTrace [loud, silence, silence]
         (setLowPassFrequency (Num 4000) (AudioProcessor_new noOptions silence))"
proof -
  let ?s1 = "AudioProcessor_new noOptions silence"
  let ?s2 = "setLowPassFrequency (Num 4000) ?s1"
  have s2: "?s2 = ?s1\<lparr>lowPassFilter := Some \<lparr>filterType = Lowpass, frequency = Num 4000, Q = Num 1\<rparr>\<rparr>"
    by (simp add: setLowPassFrequency_def new_default_silence)
  have differ: "?s2 \<noteq> ?s1"
  proof
    assume "?s2 = ?s1"
    then have "lowPassFilter ?s2 = lowPassFilter ?s1" by simp
    then show False by (simp add: s2) (simp add: new_default_silence)
  qed
  have running: "isProcessing ?s1" "isProcessing ?s2"
    by (simp_all add: s2) (simp_all add: new_default_silence)
  have same: "analyser ?s1 = analyser ?s2"
    "noiseReductionLevel (options ?s1) = noiseReductionLevel (options ?s2)"
    "noiseLevel ?s1 = noiseLevel ?s2" "noiseGate ?s1 = noiseGate ?s2"
    by (simp_all add: s2)
  from tick_loop_deterministic [OF running same, of "[loud, silence, silence]"] running differ
  show ?thesis by simp
qed

subsection \<open>C9: the noise estimate across stop and start\<close>

text \<open>
  Claim C9 says that neither stopping nor starting again modifies the noise estimate.
  For starting again it fails as stated: \<open>startNoiseReduction\<close> runs the first tick
  itself, and that tick moves the estimate. A processor built over a loud signal has the
  estimate \<open>0.1\<close>; stopped and enabled again over silence it has \<open>0.09\<close>.
\<close>

theorem restart_moves_estimate_counterexample:
  "noiseLevel (setNoiseReduction False silence (AudioProcessor_new noOptions loud))
     = Num (1/10) \<and>
   noiseLevel (setNoiseReduction True silence
      (setNoiseReduction False silence (AudioProcessor_new noOptions loud))) = Num (9/100)"
  by (simp add: new_default_loud setNoiseReduction_off
      setNoiseReduction_def startNoiseReduction_def tick_literal)

text \<open>
  Claim C9, amended. Stopping (by \<open>setNoiseReduction(false)\<close> or by \<open>disconnect\<close>) leaves
  the noise estimate as it is. Enabling noise reduction again never sets it back to 0:
  on a stopped processor that has its analyser and gate the first tick runs at once and
  moves the estimate it finds by the usual step, \<open>0.9\<close> times the old estimate plus
  \<open>0.1\<close> times the normalised average of the snapshot; on a running processor or one
  without these nodes the estimate is untouched. Only the constructor starts from the
  estimate 0 (and, with noise reduction enabled, runs the first tick on it).

  The third conjunct states the step with the operators of JavaScript, for every
  estimate; the fourth states it in real arithmetic for a real estimate and a snapshot
  with at least one bin.
\<close>

theorem estimate_across_stop_and_start:
  "noiseLevel (setNoiseReduction False data s) = noiseLevel s \<and>
   noiseLevel (disconnect s) = noiseLevel s \<and>
   (\<not> isProcessing s \<and> analyser s = Some a \<and> noiseGate s \<noteq> None \<longrightarrow>
      noiseLevel (setNoiseReduction True data s)
        = num_add (num_mul (noiseLevel s) (Num 0.9))
            (num_mul (js_normalizedAverage (snapshot a data)) (Num 0.1))) \<and>
   (\<forall>estimate. \<not> isProcessing s \<and> analyser s = Some a \<and> noiseGate s \<noteq> None \<and>
      0 < frequencyBinCount a \<and> noiseLevel s = Num estimate \<longrightarrow>
      noiseLevel (setNoiseReduction True data s)
        = Num (estimate * 0.9 + spec_normalizedAverage (snapshot a data) * 0.1)) \<and>
   (isProcessing s \<or> analyser s = None \<or> noiseGate s = None \<longrightarrow>
      noiseLevel (setNoiseReduction True data s) = noiseLevel s) \<and>
   noiseLevel (AudioProcessor_new opts data)
     = (if enableNoiseReduction (requiredOptions opts)
        then num_add (num_mul (Num 0) (Num 0.9))
               (num_mul (js_normalizedAverage
                  (snapshot \<lparr>fftSize = 2048, smoothingTimeConstant = Num 0.8\<rparr> data)) (Num 0.1))
        else Num 0)"
proof -
  have restart: "noiseLevel (setNoiseReduction True data s)
        = num_add (num_mul (noiseLevel s) (Num 0.9))
            (num_mul (js_normalizedAverage (snapshot a data)) (Num 0.1))"
    if "\<not> isProcessing s" "analyser s = Some a" "noiseGate s \<noteq> None"
  proof -
    from that obtain g where "noiseGate s = Some g" by auto
    with that show ?thesis
      by (simp add: setNoiseReduction_def startNoiseReduction_def tick_running Let_def)
  qed
  have restart_real: "noiseLevel (setNoiseReduction True data s)
        = Num (estimate * 0.9 + spec_normalizedAverage (snapshot a data) * 0.1)"
    if "\<not> isProcessing s" "analyser s = Some a" "noiseGate s \<noteq> None"
      "0 < frequencyBinCount a" "noiseLevel s = Num estimate" for estimate
  proof -
    from that(4) have "snapshot a data \<noteq> []" by (rule snapshot_nonempty)
    then have "js_normalizedAverage (snapshot a data)
                 = Num (spec_normalizedAverage (snapshot a data))"
      by (rule normalizedAverage_real)
    with restart [OF that(1,2,3)] that(5) show ?thesis by simp
  qed
  have same: "noiseLevel (setNoiseReduction True data s) = noiseLevel s"
    if "isProcessing s \<or> analyser s = None \<or> noiseGate s = None"
    using that by (auto simp: setNoiseReduction_def startNoiseReduction_def Let_def)
  have new: "noiseLevel (AudioProcessor_new opts data)
     = (if enableNoiseReduction (requiredOptions opts)
        then num_add (num_mul (Num 0) (Num 0.9))
               (num_mul (js_normalizedAverage
                  (snapshot \<lparr>fftSize = 2048, smoothingTimeConstant = Num 0.8\<rparr> data)) (Num 0.1))
        else Num 0)"
    by (simp add: new_enabled new_disabled)
  have stop: "noiseLevel (setNoiseReduction False data s) = noiseLevel s"
    "noiseLevel (disconnect s) = noiseLevel s"
    by (simp_all add: setNoiseReduction_off)
  from restart restart_real same new stop show ?thesis by blast
qed

text \<open>The theorem at the default processor built over a loud signal.\<close>

theorem estimate_across_stop_and_start_witness:
  "noiseLevel (AudioProcessor_new noOptions loud) = Num (1/10) \<and>
   noiseLevel (setNoiseReduction False silence (AudioProcessor_new noOptions loud))
     = Num (1/10) \<and>
   noiseLevel (disconnect (AudioProcessor_new noOptions loud)) = Num (1/10) \<and>
   \<not> isProcessing (setNoiseReduction False silence (AudioProcessor_new noOptions loud)) \<and>
   noiseLevel (setNoiseReduction True silence
      (setNoiseReduction False silence (AudioProcessor_new noOptions loud)))
     = Num (1/10 * 0.9 + 0 * 0.1) \<and>
   noiseLevel (setNoiseReduction True silence (AudioProcessor_new noOptions loud))
     = Num (1/10)"
proof -
  let ?a = "\<lparr>fftSize = 2048, smoothingTimeConstant = Num 0.8\<rparr>"
  let ?s = "AudioProcessor_new noOptions loud"
  let ?t = "setNoiseReduction False silence ?s"
  have s: "isProcessing ?s" "noiseLevel ?s = Num (1/10)"
    by (simp_all add: new_default_loud)
  have t: "\<not> isProcessing ?t" "analyser ?t = Some ?a" "noiseGate ?t \<noteq> None"
    "noiseLevel ?t = Num (1/10)"
    by (simp_all add: setNoiseReduction_off new_default_loud)
  have bins: "0 < frequencyBinCount ?a" by simp
  have quiet: "spec_normalizedAverage (snapshot ?a silence) = 0"
    by simp
  from estimate_across_stop_and_start [of silence ?s ?a noOptions] s
  have running: "noiseLevel (setNoiseReduction True silence ?s) = Num (1/10)"
    and stopped: "noiseLevel (setNoiseReduction False silence ?s) = Num (1/10)"
      "noiseLevel (disconnect ?s) = Num (1/10)"
    by simp_all
  from estimate_across_stop_and_start [of silence ?t ?a noOptions] t bins
  have "noiseLevel (setNoiseReduction True silence ?t)
          = Num (1/10 * 0.9 + spec_normalizedAverage (snapshot ?a silence) * 0.1)"
    by blast
  then have "noiseLevel (setNoiseReduction True silence ?t) = Num (1/10 * 0.9 + 0 * 0.1)"
    by (simp only: quiet)
  with s t running stopped show ?thesis by blast
qed

subsection \<open>C10: teardown leaves the gate gain where it is\<close>

text \<open>
  Claim C10. \<open>disconnect\<close> halts the tick loop and leaves the gate gain at the value
  last written; unlike \<open>setNoiseReduction(false)\<close>, which writes \<open>1\<close>, it does not open
  the gate, so an attenuation stays on the gain stage after teardown.
\<close>

theorem disconnect_keeps_gate_gain:
  "noiseGate (disconnect s) = noiseGate s \<and> \<not> isProcessing (disconnect s) \<and>
   (noiseGate s = Some g \<longrightarrow>
      noiseGate (disconnect s) = Some g \<and> noiseGate (setNoiseReduction False data s) = Some (Num 1))"
  by (simp add: setNoiseReduction_off)

text \<open>The theorem at a processor in mid-attenuation (gain 0.745).\<close>

theorem disconnect_keeps_gate_gain_witness:
  "noiseGate (run [Frame silence] (AudioProcessor_new noOptions silence)) = Some (Num (149/200)) \<and>
   noiseGate (disconnect (run [Frame silence] (AudioProcessor_new noOptions silence)))
     = Some (Num (149/200)) \<and>
   \<not> isProcessing (disconnect (run [Frame silence] (AudioProcessor_new noOptions silence))) \<and>
   noiseGate (setNoiseReduction False silence
      (run [Frame silence] (AudioProcessor_new noOptions silence))) = Some (Num 1)"
proof -
  let ?s = "run [Frame silence] (AudioProcessor_new noOptions silence)"
  have gate: "noiseGate ?s = Some (Num (149/200))"
    by (subst tick_default_silence) simp
  from disconnect_keeps_gate_gain [of ?s "Num (149/200)" silence] gate show ?thesis by simp
qed

end
